theory Spec2Isabelle
  imports Main
begin

section \<open>Collaborator interfaces\<close>

text \<open>
  The package drives three collaborators: the test runner's handle (\<open>testing.TB\<close>), the
  tracing backend (\<open>trace.Tracer\<close>, \<open>trace.Span\<close>) and the metrics backend. None of them
  is implemented in the repository, so the model records every call made on them, in
  program order, in one list (\<open>calls\<close>). Properties of the package are properties of
  that list and of the wrapper's own fields.
\<close>

text \<open>\<open>codes.Code\<close> of the tracing API.\<close>

datatype code = codes_Unset | codes_Error | codes_Ok

text \<open>Attributes are built with \<open>attribute.String\<close> only: key and value.\<close>

type_synonym attrs = "(string \<times> string) list"

text \<open>
  A span is identified by the number the tracer gave it. A context either carries a span
  or is \<open>context.Background()\<close>.
\<close>

type_synonym span = nat

type_synonym ctx = "span option"

text \<open>\<open>tp.Tracer("spectra")\<close> of the session's provider, or \<open>otel.Tracer("spectra")\<close>.\<close>

datatype tracer = ProviderTracer string | GlobalTracer string

text \<open>
  Variadic arguments are restricted to string operands. \<open>fmt.Sprint\<close> puts no space
  between operands when either is a string, so on these operands it concatenates.
  \<open>fmt.Sprintf\<close> is a parameter of the model.
\<close>

type_synonym args = "string list"

type_synonym sprintf = "string \<Rightarrow> args \<Rightarrow> string"

datatype provider_kind = TracerProvider | MeterProvider

datatype call =
    TracerStart tracer ctx string attrs span
  | SpanSetStatus span code string
  | SpanAddEvent span string attrs
  | SpanSetAttributes span attrs
  | SpanEnd span
  | TbHelper string
  | TbLog string args
  | TbLogf string string args
  | TbError string args
  | TbErrorf string string args
  | TbFatal string args
  | TbFatalf string string args
  | TbSkip string args
  | TbSkipf string string args
  | TbFailNow string
  | TbSkipNow string
  | TbCleanup string
  | TbRun string string
  | HistogramRecord string ctx int attrs
  | CounterAdd string ctx int attrs
  | MeterFloat64Histogram string string string
  | MeterInt64Counter string string string
  | ProviderShutdown provider_kind int
  | LogPrintf string

subsection \<open>The test handle\<close>

text \<open>
  The dynamic type behind \<open>testing.TB\<close>: \<open>*testing.T\<close>, \<open>*testing.B\<close>, or a test double.
  A double is described by two flags: whether its failing and skipping methods set the
  flags that \<open>Failed()\<close> and \<open>Skipped()\<close> report, and whether its aborting methods
  (\<open>Fatal\<close>, \<open>Skip\<close>, \<open>FailNow\<close>, \<open>SkipNow\<close>) leave the calling goroutine. The \<open>mockTB\<close> of
  the test suite is \<open>Double True False\<close>.
\<close>

datatype tbkind = TestingT | TestingB | Double bool bool

fun marks :: "tbkind \<Rightarrow> bool" where
  "marks TestingT = True"
| "marks TestingB = True"
| "marks (Double m a) = m"

fun aborts :: "tbkind \<Rightarrow> bool" where
  "aborts TestingT = True"
| "aborts TestingB = True"
| "aborts (Double m a) = a"

text \<open>
  The functions handed to \<open>tb.Cleanup\<close>: the closure of \<open>Spectra.New\<close> (it captures the
  span and its context), the closure of \<open>T.Run\<close> (it captures the subtest's span), the
  closure of \<open>T.Teardown\<close>, and a function of the caller's passed through \<open>T.Cleanup\<close>.
\<close>

datatype cleanup = NewCleanup span ctx | RunCleanup span | TeardownCleanup | UserCleanup

record handle =
  h_name :: string
  h_kind :: tbkind
  h_failed :: bool
  h_skipped :: bool
  h_cleanups :: "cleanup list"

text \<open>Whether a call returned to its caller or left the goroutine (\<open>runtime.Goexit\<close>).\<close>

datatype ctl = Continue | Goexit

subsection \<open>Session, wrapper and process state\<close>

record config =
  ServiceName :: string
  Endpoint :: string
  Insecure :: bool
  ShutdownTimeout :: int
  DisableTraces :: bool
  DisableMetrics :: bool
  DisableLogs :: bool

text \<open>A provider is known by what its \<open>Shutdown(ctx)\<close> returns: \<open>nil\<close> or an error.\<close>

datatype provider = Provider "string option"

record Spectra =
  config :: config
  tracerProvider :: "provider option"
  meterProvider :: "provider option"
  tracer :: "tracer option"
  shutdownOnce :: bool
  initialized :: bool
  shutdown :: bool

record T =
  tb :: handle
  ctx :: ctx
  span :: span
  t_tracer :: tracer
  spectra :: "Spectra option"
  failed :: bool
  startTime :: int

text \<open>The instruments of \<open>Metrics\<close>, known by their names.\<close>

record Metrics =
  duration :: string
  count :: string

text \<open>
  The process: the calls made so far, the tracer's next span number, the clock
  (nanoseconds), and the package-level variables \<open>metricsOnce\<close> and \<open>testMetrics\<close>.
\<close>

record world =
  calls :: "call list"
  next_span :: nat
  now :: int
  metricsOnce :: bool
  testMetrics :: "Metrics option"

datatype error = ErrNotInitialized | ErrAlreadyShutdown

definition emit :: "call \<Rightarrow> world \<Rightarrow> world" where
  "emit c w = w\<lparr>calls := calls w @ [c]\<rparr>"

subsection \<open>Constants of the package\<close>

definition logEventName :: string where "logEventName = ''log''"
definition attrMessage :: string where "attrMessage = ''message''"
definition attrLevel :: string where "attrLevel = ''level''"
definition attrTestName :: string where "attrTestName = ''test.name''"
definition attrTestPhase :: string where "attrTestPhase = ''test.phase''"
definition attrTestParent :: string where "attrTestParent = ''test.parent''"
definition attrTestStatus :: string where "attrTestStatus = ''test.status''"
definition levelInfo :: string where "levelInfo = ''info''"
definition levelError :: string where "levelError = ''error''"
definition levelFatal :: string where "levelFatal = ''fatal''"
definition levelSkip :: string where "levelSkip = ''skip''"
definition spanSetup :: string where "spanSetup = ''/setup''"
definition spanTeardown :: string where "spanTeardown = ''/teardown''"
definition statusPass :: string where "statusPass = ''pass''"
definition statusFail :: string where "statusFail = ''fail''"
definition statusSkip :: string where "statusSkip = ''skip''"

lemmas consts_defs =
  logEventName_def attrMessage_def attrLevel_def attrTestName_def attrTestPhase_def
  attrTestParent_def attrTestStatus_def levelInfo_def levelError_def levelFatal_def
  levelSkip_def spanSetup_def spanTeardown_def statusPass_def statusFail_def statusSkip_def

subsection \<open>Methods of the test handle\<close>

definition tb_Name :: "handle \<Rightarrow> string" where
  "tb_Name h = h_name h"

definition tb_Failed :: "handle \<Rightarrow> bool" where
  "tb_Failed h = h_failed h"

definition tb_Skipped :: "handle \<Rightarrow> bool" where
  "tb_Skipped h = h_skipped h"

definition tb_Helper :: "handle \<Rightarrow> world \<Rightarrow> world" where
  "tb_Helper h w = emit (TbHelper (h_name h)) w"

definition tb_Cleanup :: "handle \<Rightarrow> cleanup \<Rightarrow> world \<Rightarrow> handle \<times> world" where
  "tb_Cleanup h f w = (h\<lparr>h_cleanups := h_cleanups h @ [f]\<rparr>, emit (TbCleanup (h_name h)) w)"

definition tb_Log :: "handle \<Rightarrow> args \<Rightarrow> world \<Rightarrow> world" where
  "tb_Log h a w = emit (TbLog (h_name h) a) w"

definition tb_Logf :: "handle \<Rightarrow> string \<Rightarrow> args \<Rightarrow> world \<Rightarrow> world" where
  "tb_Logf h f a w = emit (TbLogf (h_name h) f a) w"

definition mark_failed :: "handle \<Rightarrow> handle" where
  "mark_failed h = h\<lparr>h_failed := h_failed h \<or> marks (h_kind h)\<rparr>"

definition mark_skipped :: "handle \<Rightarrow> handle" where
  "mark_skipped h = h\<lparr>h_skipped := h_skipped h \<or> marks (h_kind h)\<rparr>"

definition leave :: "handle \<Rightarrow> ctl" where
  "leave h = (if aborts (h_kind h) then Goexit else Continue)"

definition tb_Error :: "handle \<Rightarrow> args \<Rightarrow> world \<Rightarrow> handle \<times> world" where
  "tb_Error h a w = (mark_failed h, emit (TbError (h_name h) a) w)"

definition tb_Errorf :: "handle \<Rightarrow> string \<Rightarrow> args \<Rightarrow> world \<Rightarrow> handle \<times> world" where
  "tb_Errorf h f a w = (mark_failed h, emit (TbErrorf (h_name h) f a) w)"

definition tb_Fatal :: "handle \<Rightarrow> args \<Rightarrow> world \<Rightarrow> ctl \<times> handle \<times> world" where
  "tb_Fatal h a w = (leave h, mark_failed h, emit (TbFatal (h_name h) a) w)"

definition tb_Fatalf :: "handle \<Rightarrow> string \<Rightarrow> args \<Rightarrow> world \<Rightarrow> ctl \<times> handle \<times> world" where
  "tb_Fatalf h f a w = (leave h, mark_failed h, emit (TbFatalf (h_name h) f a) w)"

definition tb_Skip :: "handle \<Rightarrow> args \<Rightarrow> world \<Rightarrow> ctl \<times> handle \<times> world" where
  "tb_Skip h a w = (leave h, mark_skipped h, emit (TbSkip (h_name h) a) w)"

definition tb_Skipf :: "handle \<Rightarrow> string \<Rightarrow> args \<Rightarrow> world \<Rightarrow> ctl \<times> handle \<times> world" where
  "tb_Skipf h f a w = (leave h, mark_skipped h, emit (TbSkipf (h_name h) f a) w)"

definition tb_FailNow :: "handle \<Rightarrow> world \<Rightarrow> ctl \<times> handle \<times> world" where
  "tb_FailNow h w = (leave h, mark_failed h, emit (TbFailNow (h_name h)) w)"

definition tb_SkipNow :: "handle \<Rightarrow> world \<Rightarrow> ctl \<times> handle \<times> world" where
  "tb_SkipNow h w = (leave h, mark_skipped h, emit (TbSkipNow (h_name h)) w)"

subsection \<open>Methods of the tracer and of a span\<close>

definition tracer_Start :: "tracer \<Rightarrow> ctx \<Rightarrow> string \<Rightarrow> attrs \<Rightarrow> world \<Rightarrow> ctx \<times> span \<times> world" where
  "tracer_Start tr c name a w =
     (let sp = next_span w
      in (Some sp, sp, emit (TracerStart tr c name a sp) (w\<lparr>next_span := Suc sp\<rparr>)))"

definition span_SetStatus :: "span \<Rightarrow> code \<Rightarrow> string \<Rightarrow> world \<Rightarrow> world" where
  "span_SetStatus sp c m w = emit (SpanSetStatus sp c m) w"

definition span_AddEvent :: "span \<Rightarrow> string \<Rightarrow> attrs \<Rightarrow> world \<Rightarrow> world" where
  "span_AddEvent sp n a w = emit (SpanAddEvent sp n a) w"

definition span_SetAttributes :: "span \<Rightarrow> attrs \<Rightarrow> world \<Rightarrow> world" where
  "span_SetAttributes sp a w = emit (SpanSetAttributes sp a) w"

definition span_End :: "span \<Rightarrow> world \<Rightarrow> world" where
  "span_End sp w = emit (SpanEnd sp) w"

definition otel_Tracer :: "string \<Rightarrow> tracer" where
  "otel_Tracer n = GlobalTracer n"

section \<open>The metrics registry\<close>

text \<open>
  The meter of the process (\<open>otel.Meter("spectra")\<close>) is known by what its two
  constructors return: \<open>None\<close> for success, or the error.
\<close>

record meter =
  histogram_error :: "string option"
  counter_error :: "string option"

text \<open>
  \<open>Spectra.initMetrics\<close>. \<open>initErr\<close> is a local variable of the call; the function
  literal handed to \<open>metricsOnce.Do\<close> is the only code that assigns it, and it runs only
  while \<open>metricsOnce\<close> has not fired. The result is \<open>initErr\<close> (\<open>None\<close> is \<open>nil\<close>).
\<close>

definition initMetrics :: "meter \<Rightarrow> world \<Rightarrow> string option \<times> world" where
  "initMetrics m w =
     (if metricsOnce w then (None, w)
      else
        let w0 = w\<lparr>metricsOnce := True\<rparr>;
            w1 = emit (MeterFloat64Histogram ''test.duration''
                         ''Duration of test execution in seconds'' ''s'') w0
        in case histogram_error m of
             Some e \<Rightarrow> (Some (''create duration histogram: '' @ e), w1)
           | None \<Rightarrow>
               let w2 = emit (MeterInt64Counter ''test.count''
                                ''Number of tests executed'' ''{test}'') w1
               in case counter_error m of
                    Some e \<Rightarrow> (Some (''create count counter: '' @ e), w2)
                  | None \<Rightarrow>
                      (None, w2\<lparr>testMetrics :=
                                   Some \<lparr>duration = ''test.duration'', count = ''test.count''\<rparr>\<rparr>))"

text \<open>
  \<open>recordTestMetrics\<close>. The duration is kept in nanoseconds; \<open>duration.Seconds()\<close> is a
  floating-point conversion of that number.
\<close>

definition recordTestMetrics :: "ctx \<Rightarrow> string \<Rightarrow> int \<Rightarrow> string \<Rightarrow> world \<Rightarrow> world" where
  "recordTestMetrics c testName d status w =
     (case testMetrics w of
        None \<Rightarrow> w
      | Some tm \<Rightarrow>
          let a = [(attrTestName, testName), (attrTestStatus, status)];
              w1 = emit (HistogramRecord (duration tm) c d a) w
          in emit (CounterAdd (count tm) c 1 a) w1)"

section \<open>The session\<close>

text \<open>
  \<open>Spectra.Shutdown\<close>. \<open>shutdownOnce\<close> is the \<open>sync.Once\<close> of the session; the world
  receives the calls on the providers and on the standard logger.
\<close>

definition shutdown_provider :: "provider_kind \<Rightarrow> string \<Rightarrow> int \<Rightarrow> provider option \<Rightarrow> world \<Rightarrow> world" where
  "shutdown_provider k msg timeout p w =
     (case p of
        None \<Rightarrow> w
      | Some (Provider r) \<Rightarrow>
          let w1 = emit (ProviderShutdown k timeout) w
          in case r of
               None \<Rightarrow> w1
             | Some e \<Rightarrow> emit (LogPrintf (msg @ e)) w1)"

definition Shutdown :: "Spectra \<times> world \<Rightarrow> Spectra \<times> world" where
  "Shutdown sw =
     (case sw of (s, w) \<Rightarrow>
        if shutdownOnce s then (s, w)
        else
          let s1 = s\<lparr>shutdown := True\<rparr>;
              timeout = ShutdownTimeout (config s1);
              w1 = shutdown_provider TracerProvider
                     ''spectra: failed to shutdown tracer provider: '' timeout (tracerProvider s1) w;
              w2 = shutdown_provider MeterProvider
                     ''spectra: failed to shutdown meter provider: '' timeout (meterProvider s1) w1
          in (s1\<lparr>shutdownOnce := True\<rparr>, w2))"

section \<open>The test span wrapper\<close>

definition formatArgs :: "args \<Rightarrow> string" where
  "formatArgs a = concat a"

definition formatf :: "sprintf \<Rightarrow> string \<Rightarrow> args \<Rightarrow> string" where
  "formatf F f a = F f a"

definition setFailed :: "T \<Rightarrow> T" where
  "setFailed t = t\<lparr>failed := True\<rparr>"

definition hasFailed :: "T \<Rightarrow> bool" where
  "hasFailed t = failed t"

definition recordLog :: "string \<Rightarrow> string \<Rightarrow> T \<Rightarrow> world \<Rightarrow> world" where
  "recordLog message level t w =
     (if (case spectra t of None \<Rightarrow> False | Some s \<Rightarrow> DisableLogs (config s)) then w
      else span_AddEvent (span t) logEventName [(attrMessage, message), (attrLevel, level)] w)"

definition determineStatus :: "T \<Rightarrow> code \<times> string \<times> string" where
  "determineStatus t =
     (if hasFailed t \<or> tb_Failed (tb t) then (codes_Error, ''test failed'', statusFail)
      else if tb_Skipped (tb t) then (codes_Ok, ''test skipped'', statusSkip)
      else (codes_Ok, ''test passed'', statusPass))"

definition determineSubtestStatus :: "handle \<Rightarrow> code \<times> string" where
  "determineSubtestStatus h =
     (if tb_Failed h then (codes_Error, ''subtest failed'')
      else if tb_Skipped h then (codes_Ok, ''subtest skipped'')
      else (codes_Ok, ''subtest passed''))"

text \<open>
  \<open>Spectra.New\<close>. The receiver is a pointer: \<open>None\<close> is \<open>nil\<close>. The wrapper keeps the
  handle, so the registration of the cleanup is visible in its \<open>tb\<close> field.
\<close>

definition New :: "Spectra option \<Rightarrow> handle \<Rightarrow> world \<Rightarrow> (error + T) \<times> world" where
  "New s h w0 =
     (let w = tb_Helper h w0
      in case s of
           None \<Rightarrow> (Inl ErrNotInitialized, w)
         | Some sp \<Rightarrow>
             if \<not> initialized sp then (Inl ErrNotInitialized, w)
             else if shutdown sp then (Inl ErrAlreadyShutdown, w)
             else
               let tr = (case tracer sp of None \<Rightarrow> otel_Tracer ''spectra'' | Some x \<Rightarrow> x)
               in case tracer_Start tr None (tb_Name h) [(attrTestName, tb_Name h)] w of
                    (c, spn, w1) \<Rightarrow>
                      let t = \<lparr>tb = h, ctx = c, span = spn, t_tracer = tr, spectra = Some sp,
                               failed = False, startTime = now w1\<rparr>
                      in case tb_Cleanup h (NewCleanup spn c) w1 of
                           (h', w2) \<Rightarrow> (Inr (t\<lparr>tb := h'\<rparr>), w2))"

definition T_Name :: "T \<Rightarrow> string" where
  "T_Name t = tb_Name (tb t)"

definition T_Helper :: "T \<times> world \<Rightarrow> T \<times> world" where
  "T_Helper tw = (case tw of (t, w) \<Rightarrow> (t, tb_Helper (tb t) w))"

definition T_Cleanup :: "cleanup \<Rightarrow> T \<times> world \<Rightarrow> T \<times> world" where
  "T_Cleanup f tw =
     (case tw of (t, w) \<Rightarrow>
        case tb_Cleanup (tb t) f w of (h, w1) \<Rightarrow> (t\<lparr>tb := h\<rparr>, w1))"

definition T_Context :: "T \<Rightarrow> ctx" where
  "T_Context t = ctx t"

definition T_Span :: "T \<Rightarrow> span" where
  "T_Span t = span t"

definition T_SetAttributes :: "attrs \<Rightarrow> T \<times> world \<Rightarrow> T \<times> world" where
  "T_SetAttributes a tw = (case tw of (t, w) \<Rightarrow> (t, span_SetAttributes (span t) a w))"

definition T_AddEvent :: "string \<Rightarrow> attrs \<Rightarrow> T \<times> world \<Rightarrow> T \<times> world" where
  "T_AddEvent n a tw = (case tw of (t, w) \<Rightarrow> (t, span_AddEvent (span t) n a w))"

definition T_Log :: "args \<Rightarrow> T \<times> world \<Rightarrow> T \<times> world" where
  "T_Log a tw =
     (case T_Helper tw of (t, w) \<Rightarrow>
        let w1 = tb_Log (tb t) a w
        in (t, recordLog (formatArgs a) levelInfo t w1))"

definition T_Logf :: "sprintf \<Rightarrow> string \<Rightarrow> args \<Rightarrow> T \<times> world \<Rightarrow> T \<times> world" where
  "T_Logf F f a tw =
     (case T_Helper tw of (t, w) \<Rightarrow>
        let w1 = tb_Logf (tb t) f a w
        in (t, recordLog (formatf F f a) levelInfo t w1))"

definition T_Error :: "args \<Rightarrow> T \<times> world \<Rightarrow> T \<times> world" where
  "T_Error a tw =
     (case T_Helper tw of (t, w) \<Rightarrow>
        let t1 = setFailed t
        in case tb_Error (tb t1) a w of
             (h, w1) \<Rightarrow>
               let t2 = t1\<lparr>tb := h\<rparr>
               in (t2, recordLog (formatArgs a) levelError t2 w1))"

definition T_Errorf :: "sprintf \<Rightarrow> string \<Rightarrow> args \<Rightarrow> T \<times> world \<Rightarrow> T \<times> world" where
  "T_Errorf F f a tw =
     (case T_Helper tw of (t, w) \<Rightarrow>
        let t1 = setFailed t
        in case tb_Errorf (tb t1) f a w of
             (h, w1) \<Rightarrow>
               let t2 = t1\<lparr>tb := h\<rparr>
               in (t2, recordLog (formatf F f a) levelError t2 w1))"

definition T_Fatal :: "args \<Rightarrow> T \<times> world \<Rightarrow> ctl \<times> T \<times> world" where
  "T_Fatal a tw =
     (case T_Helper tw of (t, w) \<Rightarrow>
        let t1 = setFailed t;
            w1 = recordLog (formatArgs a) levelFatal t1 w;
            w2 = span_SetStatus (span t1) codes_Error ''test fatal'' w1
        in case tb_Fatal (tb t1) a w2 of
             (c, h, w3) \<Rightarrow> (c, t1\<lparr>tb := h\<rparr>, w3))"

definition T_Fatalf :: "sprintf \<Rightarrow> string \<Rightarrow> args \<Rightarrow> T \<times> world \<Rightarrow> ctl \<times> T \<times> world" where
  "T_Fatalf F f a tw =
     (case T_Helper tw of (t, w) \<Rightarrow>
        let t1 = setFailed t;
            w1 = recordLog (formatf F f a) levelFatal t1 w;
            w2 = span_SetStatus (span t1) codes_Error ''test fatal'' w1
        in case tb_Fatalf (tb t1) f a w2 of
             (c, h, w3) \<Rightarrow> (c, t1\<lparr>tb := h\<rparr>, w3))"

definition T_Skip :: "args \<Rightarrow> T \<times> world \<Rightarrow> ctl \<times> T \<times> world" where
  "T_Skip a tw =
     (case T_Helper tw of (t, w) \<Rightarrow>
        let w1 = recordLog (formatArgs a) levelSkip t w;
            w2 = span_SetStatus (span t) codes_Ok ''test skipped'' w1
        in case tb_Skip (tb t) a w2 of
             (c, h, w3) \<Rightarrow> (c, t\<lparr>tb := h\<rparr>, w3))"

definition T_Skipf :: "sprintf \<Rightarrow> string \<Rightarrow> args \<Rightarrow> T \<times> world \<Rightarrow> ctl \<times> T \<times> world" where
  "T_Skipf F f a tw =
     (case T_Helper tw of (t, w) \<Rightarrow>
        let w1 = recordLog (formatf F f a) levelSkip t w;
            w2 = span_SetStatus (span t) codes_Ok ''test skipped'' w1
        in case tb_Skipf (tb t) f a w2 of
             (c, h, w3) \<Rightarrow> (c, t\<lparr>tb := h\<rparr>, w3))"

subsection \<open>Spans within a test\<close>

text \<open>
  \<open>T.StartSpan\<close>, \<open>T.Setup\<close> and \<open>T.Teardown\<close>. The function the caller passes to
  \<open>Setup\<close> or \<open>Teardown\<close> receives only the new context; it is taken to make no call on
  the wrapper.
\<close>

definition T_StartSpan :: "string \<Rightarrow> T \<times> world \<Rightarrow> (ctx \<times> span) \<times> T \<times> world" where
  "T_StartSpan name tw =
     (case tw of (t, w) \<Rightarrow>
        case tracer_Start (t_tracer t) (ctx t) name [] w of
          (c, spn, w1) \<Rightarrow> ((c, spn), t, w1))"

definition T_Setup :: "T \<times> world \<Rightarrow> T \<times> world" where
  "T_Setup tw =
     (case T_Helper tw of (t, w) \<Rightarrow>
        case tracer_Start (t_tracer t) (ctx t) (T_Name t @ spanSetup)
               [(attrTestPhase, ''setup'')] w of
          (c, spn, w1) \<Rightarrow> (t, span_End spn w1))"

definition T_Teardown :: "T \<times> world \<Rightarrow> T \<times> world" where
  "T_Teardown tw = T_Cleanup TeardownCleanup (T_Helper tw)"

subsection \<open>Cleanup functions and the runner's cleanup phase\<close>

text \<open>
  The bodies of the registered closures. A closure reads the wrapper it captured when it
  runs, not when it was registered, so it takes the wrapper's state at that moment.
\<close>

fun run_cleanup :: "cleanup \<Rightarrow> T \<Rightarrow> world \<Rightarrow> world" where
  "run_cleanup (NewCleanup spn c) t w =
     (let d = now w - startTime t
      in case determineStatus t of
           (cd, message, status) \<Rightarrow>
             let w1 = span_SetStatus spn cd message w;
                 w2 = span_End spn w1
             in recordTestMetrics c (tb_Name (tb t)) d status w2)"
| "run_cleanup (RunCleanup spn) t w =
     (case determineSubtestStatus (tb t) of
        (cd, message) \<Rightarrow>
          let w1 = span_SetStatus spn cd message w
          in span_End spn w1)"
| "run_cleanup TeardownCleanup t w =
     (case tracer_Start (t_tracer t) (ctx t) (T_Name t @ spanTeardown)
             [(attrTestPhase, ''teardown'')] w of
        (c, spn, w1) \<Rightarrow> span_End spn w1)"
| "run_cleanup UserCleanup t w = w"

text \<open>
  The test runner calls the registered functions last-registered first, once each, when
  the test function has returned or has left through \<open>runtime.Goexit\<close>.
\<close>

fun run_all :: "cleanup list \<Rightarrow> T \<Rightarrow> world \<Rightarrow> world" where
  "run_all [] t w = w"
| "run_all (f # fs) t w = run_all fs t (run_cleanup f t w)"

definition run_cleanups :: "T \<times> world \<Rightarrow> T \<times> world" where
  "run_cleanups tw =
     (case tw of (t, w) \<Rightarrow>
        (t\<lparr>tb := (tb t)\<lparr>h_cleanups := []\<rparr>\<rparr>, run_all (rev (h_cleanups (tb t))) t w))"

subsection \<open>Subtests\<close>

text \<open>
  The function literal that \<open>T.Run\<close> hands to \<open>tt.Run\<close>: it receives the handle of the
  nested test, builds the nested wrapper and calls \<open>f\<close> on it. Its result is the nested
  wrapper when \<open>f\<close> has returned or left.
\<close>

definition Run_closure :: "T \<Rightarrow> (T \<times> world \<Rightarrow> ctl \<times> T \<times> world) \<Rightarrow> handle \<Rightarrow> world \<Rightarrow> T \<times> world" where
  "Run_closure t f innerT w0 =
     (let w = tb_Helper innerT w0
      in case tracer_Start (t_tracer t) (ctx t) (tb_Name innerT)
                [(attrTestName, tb_Name innerT), (attrTestParent, T_Name t)] w of
           (c, spn, w1) \<Rightarrow>
             let st = \<lparr>tb = innerT, ctx = c, span = spn, t_tracer = t_tracer t,
                       spectra = spectra t, failed = False, startTime = 0\<rparr>
             in case tb_Cleanup innerT (RunCleanup spn) w1 of
                  (h, w2) \<Rightarrow> snd (f (st\<lparr>tb := h\<rparr>, w2)))"

text \<open>
  \<open>(*testing.T).Run\<close> of the test runner, for a subtest that does not call \<open>Parallel\<close>
  and whose name the runner neither rewrites nor numbers (no white space, no sibling of
  the same name): the nested test is named after its parent, the function literal runs,
  the nested test's cleanup functions run, a failure of the nested test marks the parent
  as failed, and the result is whether the nested test passed.
\<close>

definition subtest_handle :: "handle \<Rightarrow> string \<Rightarrow> handle" where
  "subtest_handle tt name =
     \<lparr>h_name = h_name tt @ ''/'' @ name, h_kind = TestingT, h_failed = False,
      h_skipped = False, h_cleanups = []\<rparr>"

definition tt_Run :: "handle \<Rightarrow> string \<Rightarrow> (handle \<Rightarrow> world \<Rightarrow> T \<times> world) \<Rightarrow> world \<Rightarrow> bool \<times> handle \<times> world" where
  "tt_Run tt name g w0 =
     (let innerT = subtest_handle tt name;
          w = emit (TbRun (h_name tt) name) w0
      in case run_cleanups (g innerT w) of
           (st, w1) \<Rightarrow>
             (\<not> h_failed (tb st), tt\<lparr>h_failed := h_failed tt \<or> h_failed (tb st)\<rparr>, w1))"

text \<open>
  \<open>T.Run\<close>. The type assertion \<open>t.tb.(*testing.T)\<close> succeeds on \<open>TestingT\<close> only. The
  result is \<open>None\<close> when the call does not return.
\<close>

definition T_Run :: "string \<Rightarrow> (T \<times> world \<Rightarrow> ctl \<times> T \<times> world) \<Rightarrow> T \<times> world \<Rightarrow> bool option \<times> T \<times> world" where
  "T_Run name f tw =
     (case T_Helper tw of (t, w) \<Rightarrow>
        if h_kind (tb t) \<noteq> TestingT then
          (case T_Fatal [''spectra: Run() requires *testing.T, not *testing.B''] (t, w) of
             (Goexit, t1, w1) \<Rightarrow> (None, t1, w1)
           | (Continue, t1, w1) \<Rightarrow> (Some False, t1, w1))
        else
          (case tt_Run (tb t) name (Run_closure t f) w of
             (ok, h, w1) \<Rightarrow> (Some ok, t\<lparr>tb := h\<rparr>, w1)))"

section \<open>Test bodies\<close>

text \<open>
  A test body is a sequence of calls on the wrapper. \<open>Sleep\<close> stands for the time the
  body spends between two calls; \<open>Run\<close> carries the body of the nested test.
\<close>

datatype stmt =
    Helper
  | Log args
  | Logf string args
  | Error args
  | Errorf string args
  | Fatal args
  | Fatalf string args
  | Skip args
  | Skipf string args
  | SetAttributes attrs
  | AddEvent string attrs
  | StartSpan string
  | Setup
  | Teardown
  | Cleanup
  | Run string "stmt list"
  | Sleep nat

fun exec_stmt :: "sprintf \<Rightarrow> stmt \<Rightarrow> T \<times> world \<Rightarrow> ctl \<times> T \<times> world"
  and exec_body :: "sprintf \<Rightarrow> stmt list \<Rightarrow> T \<times> world \<Rightarrow> ctl \<times> T \<times> world" where
  "exec_stmt F Helper tw = (Continue, T_Helper tw)"
| "exec_stmt F (Log a) tw = (Continue, T_Log a tw)"
| "exec_stmt F (Logf f a) tw = (Continue, T_Logf F f a tw)"
| "exec_stmt F (Error a) tw = (Continue, T_Error a tw)"
| "exec_stmt F (Errorf f a) tw = (Continue, T_Errorf F f a tw)"
| "exec_stmt F (Fatal a) tw = T_Fatal a tw"
| "exec_stmt F (Fatalf f a) tw = T_Fatalf F f a tw"
| "exec_stmt F (Skip a) tw = T_Skip a tw"
| "exec_stmt F (Skipf f a) tw = T_Skipf F f a tw"
| "exec_stmt F (SetAttributes a) tw = (Continue, T_SetAttributes a tw)"
| "exec_stmt F (AddEvent n a) tw = (Continue, T_AddEvent n a tw)"
| "exec_stmt F (StartSpan n) tw = (Continue, snd (T_StartSpan n tw))"
| "exec_stmt F Setup tw = (Continue, T_Setup tw)"
| "exec_stmt F Teardown tw = (Continue, T_Teardown tw)"
| "exec_stmt F Cleanup tw = (Continue, T_Cleanup UserCleanup tw)"
| "exec_stmt F (Run name body) tw =
     (case T_Run name (\<lambda>x. exec_body F body x) tw of
        (None, tw1) \<Rightarrow> (Goexit, tw1)
      | (Some ok, tw1) \<Rightarrow> (Continue, tw1))"
| "exec_stmt F (Sleep d) tw = (case tw of (t, w) \<Rightarrow> (Continue, t, w\<lparr>now := now w + int d\<rparr>))"
| "exec_body F [] tw = (Continue, tw)"
| "exec_body F (s # ss) tw =
     (case exec_stmt F s tw of
        (Goexit, tw1) \<Rightarrow> (Goexit, tw1)
      | (Continue, tw1) \<Rightarrow> exec_body F ss tw1)"

text \<open>
  A test function that creates its wrapper first and then runs \<open>body\<close>, followed by the
  runner's cleanup phase. When \<open>New\<close> fails the test function stops there.
\<close>

definition run_test :: "sprintf \<Rightarrow> Spectra option \<Rightarrow> handle \<Rightarrow> stmt list \<Rightarrow> world \<Rightarrow> (error + T) \<times> world" where
  "run_test F s h body w =
     (case New s h w of
        (Inl e, w1) \<Rightarrow> (Inl e, w1)
      | (Inr t, w1) \<Rightarrow>
          (case run_cleanups (snd (exec_body F body (t, w1))) of
             (t1, w2) \<Rightarrow> (Inr t1, w2)))"

section \<open>Observations on the list of calls\<close>

text \<open>The calls that \<open>recordTestMetrics\<close> makes on the instruments.\<close>

definition metric_records :: "world \<Rightarrow> ctx \<Rightarrow> string \<Rightarrow> int \<Rightarrow> string \<Rightarrow> call list" where
  "metric_records w c name d status =
     (case testMetrics w of
        None \<Rightarrow> []
      | Some tm \<Rightarrow>
          [HistogramRecord (duration tm) c d [(''test.name'', name), (''test.status'', status)],
           CounterAdd (count tm) c 1 [(''test.name'', name), (''test.status'', status)]])"

text \<open>The calls a run has added to the list.\<close>

definition new_calls :: "world \<Rightarrow> world \<Rightarrow> call list" where
  "new_calls w w1 = drop (length (calls w)) (calls w1)"

text \<open>The calls that \<open>Shutdown\<close> makes for one provider: the release, and the log line
  when the release fails.\<close>

definition release_calls :: "provider_kind \<Rightarrow> string \<Rightarrow> int \<Rightarrow> provider option \<Rightarrow> call list" where
  "release_calls k msg timeout p =
     (case p of
        None \<Rightarrow> []
      | Some (Provider None) \<Rightarrow> [ProviderShutdown k timeout]
      | Some (Provider (Some e)) \<Rightarrow> [ProviderShutdown k timeout, LogPrintf (msg @ e)])"

fun is_release :: "call \<Rightarrow> bool" where
  "is_release (ProviderShutdown k d) = True"
| "is_release c = False"

text \<open>The span event that \<open>recordLog\<close> adds, when the session captures logs.\<close>

definition log_event :: "T \<Rightarrow> string \<Rightarrow> string \<Rightarrow> call list" where
  "log_event t message level =
     (if (case spectra t of None \<Rightarrow> False | Some s \<Rightarrow> DisableLogs (config s)) then []
      else [SpanAddEvent (span t) ''log'' [(''message'', message), (''level'', level)]])"

fun is_metric :: "call \<Rightarrow> bool" where
  "is_metric (HistogramRecord i c d a) = True"
| "is_metric (CounterAdd i c d a) = True"
| "is_metric c = False"

text \<open>
  A call that is no record on an instrument and does not end a span numbered below \<open>n\<close>.
\<close>

fun apart :: "nat \<Rightarrow> call \<Rightarrow> bool" where
  "apart n (SpanEnd sp) = (n \<le> sp)"
| "apart n (HistogramRecord i c d a) = False"
| "apart n (CounterAdd i c d a) = False"
| "apart n c = True"

text \<open>The cleanup functions that a test body can register through the wrapper.\<close>

fun inert :: "cleanup \<Rightarrow> bool" where
  "inert TeardownCleanup = True"
| "inert UserCleanup = True"
| "inert f = False"

text \<open>
  How a run of wrapper methods relates the process before and after: calls are only
  added, none of them records a metric or ends a span that existed before, and the
  registry is left as it was.
\<close>

definition ext :: "world \<Rightarrow> world \<Rightarrow> bool" where
  "ext w w1 \<longleftrightarrow>
     (\<exists>cs. calls w1 = calls w @ cs \<and> list_all (apart (next_span w)) cs)
     \<and> next_span w \<le> next_span w1
     \<and> testMetrics w1 = testMetrics w
     \<and> metricsOnce w1 = metricsOnce w"

text \<open>
  How it relates the wrapper before and after: span, context, tracer, session and start
  time stay, the handle keeps its name and type, the failed flag is never cleared, and
  cleanup functions are only added, none of them the closure of \<open>New\<close> or of \<open>Run\<close>.
\<close>

definition keeps :: "T \<Rightarrow> T \<Rightarrow> bool" where
  "keeps t t1 \<longleftrightarrow>
     span t1 = span t \<and> ctx t1 = ctx t \<and> t_tracer t1 = t_tracer t
     \<and> spectra t1 = spectra t \<and> startTime t1 = startTime t
     \<and> h_name (tb t1) = h_name (tb t) \<and> h_kind (tb t1) = h_kind (tb t)
     \<and> (failed t \<longrightarrow> failed t1)
     \<and> (\<exists>fs. h_cleanups (tb t1) = h_cleanups (tb t) @ fs \<and> list_all inert fs)"

text \<open>A function of the caller's, as opposed to a closure of the package.\<close>

fun is_user :: "cleanup \<Rightarrow> bool" where
  "is_user UserCleanup = True"
| "is_user f = False"

text \<open>Whether the body reaches a call of \<open>Error\<close> or \<open>Errorf\<close> on the wrapper.\<close>

fun is_Error :: "stmt \<Rightarrow> bool" where
  "is_Error (Error a) = True"
| "is_Error (Errorf f a) = True"
| "is_Error s = False"

fun invokes_Error :: "sprintf \<Rightarrow> stmt list \<Rightarrow> T \<times> world \<Rightarrow> bool" where
  "invokes_Error F [] tw = False"
| "invokes_Error F (s # ss) tw =
     (is_Error s \<or>
      (case exec_stmt F s tw of
         (Goexit, tw1) \<Rightarrow> False
       | (Continue, tw1) \<Rightarrow> invokes_Error F ss tw1))"

text \<open>
  The nested wrapper and the process at the moment \<open>T.Run\<close>'s function literal calls \<open>f\<close>:
  the parent has called \<open>Helper\<close>, the runner has created the nested handle, and the
  literal has called \<open>Helper\<close>, started the span and registered the cleanup.
\<close>

definition subtest_start :: "T \<Rightarrow> string \<Rightarrow> world \<Rightarrow> T \<times> world" where
  "subtest_start t name w =
     Run_closure t (\<lambda>x. (Continue, x)) (subtest_handle (tb t) name)
       (emit (TbRun (h_name (tb t)) name) (tb_Helper (tb t) w))"

section \<open>Operations of the wrapper that are not in the sources at hand\<close>

text \<open>
  Modelled from the spec: the methods \<open>T.FailNow\<close> and \<open>T.SkipNow\<close>. The test suite calls
  them (\<open>TestT_FailNow\<close>, \<open>TestT_SkipNow\<close>) but their bodies are missing. The
  specification (4.2) gives them the effects of \<open>Fatal\<close> and \<open>Skip\<close> with a fixed message,
  "test failed" and "test skipped", and no formatted text; the fixed message is the
  message of the event and of the status, and the call is forwarded to the handle's
  \<open>FailNow\<close> and \<open>SkipNow\<close>.
\<close>

definition T_FailNow :: "T \<times> world \<Rightarrow> ctl \<times> T \<times> world" where
  "T_FailNow tw =
     (case T_Helper tw of (t, w) \<Rightarrow>
        let t1 = setFailed t;
            w1 = recordLog ''test failed'' levelFatal t1 w;
            w2 = span_SetStatus (span t1) codes_Error ''test failed'' w1
        in case tb_FailNow (tb t1) w2 of
             (c, h, w3) \<Rightarrow> (c, t1\<lparr>tb := h\<rparr>, w3))"

definition T_SkipNow :: "T \<times> world \<Rightarrow> ctl \<times> T \<times> world" where
  "T_SkipNow tw =
     (case T_Helper tw of (t, w) \<Rightarrow>
        let w1 = recordLog ''test skipped'' levelSkip t w;
            w2 = span_SetStatus (span t) codes_Ok ''test skipped'' w1
        in case tb_SkipNow (tb t) w2 of
             (c, h, w3) \<Rightarrow> (c, t\<lparr>tb := h\<rparr>, w3))"

text \<open>
  What separates the calls of \<open>FailNow\<close> and \<open>SkipNow\<close> from those of \<open>Fatal\<close> and
  \<open>Skip\<close>: the message of the status, and the method of the handle that receives the
  forwarded call, which takes no arguments.
\<close>

fun fixed_variant :: "call \<Rightarrow> call" where
  "fixed_variant (SpanSetStatus sp cd m) =
     SpanSetStatus sp cd (if cd = codes_Error then ''test failed'' else m)"
| "fixed_variant (TbFatal n a) = TbFailNow n"
| "fixed_variant (TbSkip n a) = TbSkipNow n"
| "fixed_variant c = c"

section \<open>A concrete session, handles and process\<close>

text \<open>
  An initialised session with tracing and metrics, the handle of a test \<open>TestX\<close>, a
  test double whose \<open>Error\<close> leaves \<open>Failed()\<close> false and on which the caller has
  registered a cleanup function of its own, and a process whose metrics registry has been
  initialised. \<open>New\<close> on the session gives the wrappers below.
\<close>

definition ex_config :: config where
  "ex_config = \<lparr>ServiceName = ''svc'', Endpoint = ''grpc://localhost:4317'', Insecure = False,
                 ShutdownTimeout = 5000000000, DisableTraces = False, DisableMetrics = False,
                 DisableLogs = False\<rparr>"

definition ex_session :: Spectra where
  "ex_session = \<lparr>config = ex_config, tracerProvider = Some (Provider None),
                  meterProvider = Some (Provider None),
                  tracer = Some (ProviderTracer ''spectra''), shutdownOnce = False,
                  initialized = True, shutdown = False\<rparr>"

definition ex_handle :: handle where
  "ex_handle = \<lparr>h_name = ''TestX'', h_kind = TestingT, h_failed = False, h_skipped = False,
                 h_cleanups = []\<rparr>"

definition ex_double :: handle where
  "ex_double = \<lparr>h_name = ''TestY'', h_kind = Double False False, h_failed = False,
                 h_skipped = False, h_cleanups = [UserCleanup]\<rparr>"

definition ex_world :: world where
  "ex_world = \<lparr>calls = [], next_span = 0, now = 0, metricsOnce = True,
                testMetrics = Some \<lparr>duration = ''test.duration'', count = ''test.count''\<rparr>\<rparr>"

definition ex_world1 :: "handle \<Rightarrow> world" where
  "ex_world1 h =
     \<lparr>calls = [TbHelper (h_name h),
                TracerStart (ProviderTracer ''spectra'') None (h_name h)
                  [(''test.name'', h_name h)] 0,
                TbCleanup (h_name h)],
      next_span = 1, now = 0, metricsOnce = True,
      testMetrics = Some \<lparr>duration = ''test.duration'', count = ''test.count''\<rparr>\<rparr>"

definition ex_T :: "handle \<Rightarrow> T" where
  "ex_T h =
     \<lparr>tb = h\<lparr>h_cleanups := h_cleanups h @ [NewCleanup 0 (Some 0)]\<rparr>, ctx = Some 0, span = 0,
      t_tracer = ProviderTracer ''spectra'', spectra = Some ex_session, failed = False,
      startTime = 0\<rparr>"

definition ex_sprintf :: sprintf where
  "ex_sprintf f a = f"

text \<open>
  Three bodies: one that leaves through \<open>Fatal\<close> before its last statement, one that
  reports an error and returns, and the body of a nested test that reports an error and
  registers a teardown.
\<close>

definition ex_fatal_body :: "stmt list" where
  "ex_fatal_body = [Log [''hi''], Sleep 7, Fatal [''boom''], Log [''never'']]"

definition ex_error_body :: "stmt list" where
  "ex_error_body = [Errorf ''bad %s'' [''input''], Log [''goes on'']]"

definition ex_child_body :: "stmt list" where
  "ex_child_body = [Error [''bad''], Teardown]"

section \<open>Properties\<close>

subsection \<open>What the cleanup functions call\<close>


lemma emit_simps [simp]:
  "calls (emit c w) = calls w @ [c]"
  "next_span (emit c w) = next_span w"
  "now (emit c w) = now w"
  "metricsOnce (emit c w) = metricsOnce w"
  "testMetrics (emit c w) = testMetrics w"
  by (simp_all add: emit_def)

lemma recordTestMetrics_calls:
  "calls (recordTestMetrics c name d status w) = calls w @ metric_records w c name d status"
  by (simp add: recordTestMetrics_def metric_records_def attrTestName_def attrTestStatus_def
      Let_def split: option.splits)

lemma recordTestMetrics_frame [simp]:
  "next_span (recordTestMetrics c name d status w) = next_span w"
  "now (recordTestMetrics c name d status w) = now w"
  "metricsOnce (recordTestMetrics c name d status w) = metricsOnce w"
  "testMetrics (recordTestMetrics c name d status w) = testMetrics w"
  by (simp_all add: recordTestMetrics_def Let_def split: option.splits)

lemma NewCleanup_calls:
  "calls (run_cleanup (NewCleanup spn c) t w) =
     calls w @ [SpanSetStatus spn (fst (determineStatus t)) (fst (snd (determineStatus t))),
                SpanEnd spn]
       @ metric_records w c (h_name (tb t)) (now w - startTime t) (snd (snd (determineStatus t)))"
  by (cases "determineStatus t")
    (simp add: recordTestMetrics_calls span_SetStatus_def span_End_def tb_Name_def
      metric_records_def Let_def)

text \<open>
  C2. Whatever the wrapper's own flag and the handle's \<open>Failed()\<close> and \<open>Skipped()\<close> are,
  \<open>determineStatus\<close> decides by priority: the wrapper's flag or \<open>Failed()\<close> gives
  \<open>Error\<close>, "test failed" and the label "fail"; otherwise \<open>Skipped()\<close> gives \<open>Ok\<close>,
  "test skipped" and "skip"; otherwise \<open>Ok\<close>, "test passed" and "pass". The cleanup
  function of \<open>New\<close> passes exactly this code and message to \<open>SetStatus\<close> and this label
  to the metrics registry.
\<close>

theorem determineStatus_priority:
  "determineStatus t =
     (if failed t \<or> tb_Failed (tb t) then (codes_Error, ''test failed'', ''fail'')
      else if tb_Skipped (tb t) then (codes_Ok, ''test skipped'', ''skip'')
      else (codes_Ok, ''test passed'', ''pass''))
   \<and> calls (run_cleanup (NewCleanup spn c) t w) =
       calls w @ [SpanSetStatus spn (fst (determineStatus t)) (fst (snd (determineStatus t))),
                  SpanEnd spn]
         @ metric_records w c (h_name (tb t)) (now w - startTime t)
             (snd (snd (determineStatus t)))"
  unfolding NewCleanup_calls
  by (simp add: determineStatus_def hasFailed_def statusFail_def statusSkip_def statusPass_def)

subsection \<open>Creating a wrapper on a session that cannot serve it\<close>

text \<open>
  C6, as the code has it. \<open>New\<close> on a \<open>nil\<close> receiver, or on a session whose
  \<open>initialized\<close> flag is not set (only \<open>Init\<close> sets it), fails with
  \<open>ErrNotInitialized\<close>, also when \<open>Shutdown\<close> has been called on it; on an initialised
  session whose \<open>shutdown\<close> flag is set it fails with \<open>ErrAlreadyShutdown\<close>. A failing
  call returns no wrapper, and all it has done is the call of \<open>tb.Helper()\<close>: no span is
  started and no cleanup is registered. \<open>New\<close> fails in these cases only.
\<close>

theorem New_fails_without_span:
  "New None h w = (Inl ErrNotInitialized, emit (TbHelper (h_name h)) w)
   \<and> New (Some (sp\<lparr>initialized := False\<rparr>)) h w
       = (Inl ErrNotInitialized, emit (TbHelper (h_name h)) w)
   \<and> New (Some (sp\<lparr>initialized := True, shutdown := True\<rparr>)) h w
       = (Inl ErrAlreadyShutdown, emit (TbHelper (h_name h)) w)
   \<and> isl (fst (New s h w))
       = (case s of None \<Rightarrow> True | Some x \<Rightarrow> \<not> (initialized x \<and> \<not> shutdown x))
   \<and> (case fst (New s h w) of
         Inl e \<Rightarrow> snd (New s h w) = emit (TbHelper (h_name h)) w
       | Inr t \<Rightarrow> new_calls w (snd (New s h w))
           = [TbHelper (h_name h),
              TracerStart (t_tracer t) None (h_name h) [(''test.name'', h_name h)] (span t),
              TbCleanup (h_name h)])"
  by (simp add: New_def tb_Helper_def tracer_Start_def tb_Cleanup_def tb_Name_def
      attrTestName_def new_calls_def Let_def split: option.splits)

text \<open>
  A zero-value session on which \<open>Shutdown\<close> has been called: its \<open>shutdown\<close> flag is set,
  and \<open>New\<close> fails with \<open>ErrNotInitialized\<close>, not with \<open>ErrAlreadyShutdown\<close>, because
  the initialisation check comes first.
\<close>

theorem New_after_Shutdown_uninitialized_counterexample:
  "shutdown (fst (Shutdown
      (\<lparr>config = \<lparr>ServiceName = [], Endpoint = [], Insecure = False, ShutdownTimeout = 0,
                  DisableTraces = False, DisableMetrics = False, DisableLogs = False\<rparr>,
        tracerProvider = None, meterProvider = None, tracer = None,
        shutdownOnce = False, initialized = False, shutdown = False\<rparr>,
       \<lparr>calls = [], next_span = 0, now = 0, metricsOnce = False, testMetrics = None\<rparr>)))
   \<and> fst (New
      (Some (fst (Shutdown
        (\<lparr>config = \<lparr>ServiceName = [], Endpoint = [], Insecure = False, ShutdownTimeout = 0,
                    DisableTraces = False, DisableMetrics = False, DisableLogs = False\<rparr>,
          tracerProvider = None, meterProvider = None, tracer = None,
          shutdownOnce = False, initialized = False, shutdown = False\<rparr>,
         \<lparr>calls = [], next_span = 0, now = 0, metricsOnce = False, testMetrics = None\<rparr>))))
      \<lparr>h_name = ''TestX'', h_kind = TestingT, h_failed = False, h_skipped = False,
        h_cleanups = []\<rparr>
      \<lparr>calls = [], next_span = 0, now = 0, metricsOnce = False, testMetrics = None\<rparr>)
     = Inl ErrNotInitialized
   \<and> fst (New
      (Some (fst (Shutdown
        (\<lparr>config = \<lparr>ServiceName = [], Endpoint = [], Insecure = False, ShutdownTimeout = 0,
                    DisableTraces = False, DisableMetrics = False, DisableLogs = False\<rparr>,
          tracerProvider = None, meterProvider = None, tracer = None,
          shutdownOnce = False, initialized = False, shutdown = False\<rparr>,
         \<lparr>calls = [], next_span = 0, now = 0, metricsOnce = False, testMetrics = None\<rparr>))))
      \<lparr>h_name = ''TestX'', h_kind = TestingT, h_failed = False, h_skipped = False,
        h_cleanups = []\<rparr>
      \<lparr>calls = [], next_span = 0, now = 0, metricsOnce = False, testMetrics = None\<rparr>)
     \<noteq> Inl ErrAlreadyShutdown"
  by (simp add: Shutdown_def shutdown_provider_def New_def tb_Helper_def Let_def)

subsection \<open>Shutting the session down\<close>

lemma shutdown_provider_calls:
  "calls (shutdown_provider k msg d p w) = calls w @ release_calls k msg d p"
  by (simp add: shutdown_provider_def release_calls_def Let_def
      split: option.splits provider.splits)

lemma Shutdown_done:
  "shutdownOnce s \<Longrightarrow> Shutdown (s, w) = (s, w)"
  by (simp add: Shutdown_def)

lemma Shutdown_sets_once:
  "shutdownOnce (fst (Shutdown (s, w)))"
  by (simp add: Shutdown_def Let_def)

lemma Shutdown_twice:
  "Shutdown (Shutdown sw) = Shutdown sw"
proof (cases sw)
  case (Pair s w)
  have "shutdownOnce (fst (Shutdown (s, w)))"
    by (rule Shutdown_sets_once)
  then have "Shutdown (fst (Shutdown (s, w)), snd (Shutdown (s, w))) = Shutdown (s, w)"
    using Shutdown_done [of "fst (Shutdown (s, w))" "snd (Shutdown (s, w))"] by simp
  with Pair show ?thesis by simp
qed

lemma Shutdown_many:
  "(Shutdown ^^ Suc n) sw = Shutdown sw"
  by (induction n) (simp_all add: Shutdown_twice)

lemma Shutdown_first_calls:
  "calls (snd (Shutdown (s\<lparr>shutdownOnce := False\<rparr>, w))) =
     calls w
       @ release_calls TracerProvider ''spectra: failed to shutdown tracer provider: ''
           (ShutdownTimeout (config s)) (tracerProvider s)
       @ release_calls MeterProvider ''spectra: failed to shutdown meter provider: ''
           (ShutdownTimeout (config s)) (meterProvider s)"
  by (simp add: Shutdown_def Let_def shutdown_provider_calls)

lemma length_filter_release:
  "length (filter is_release (release_calls k msg d p)) = (case p of None \<Rightarrow> 0 | Some x \<Rightarrow> 1)"
  by (simp add: release_calls_def split: option.splits provider.splits)

text \<open>
  C7. The body of \<open>Shutdown\<close> runs at most once. Calling it twice, or any number of times,
  leaves the session and the process as one call does. On a session that has not been
  shut down, any number of calls releases each provider the session holds exactly once;
  a release that fails leaves one line on the logger and nothing else. A call on a session
  that has been shut down changes nothing. \<open>Shutdown\<close> has no result through which a
  failure could be returned.
\<close>

theorem Shutdown_runs_once:
  "Shutdown (Shutdown sw) = Shutdown sw
   \<and> (Shutdown ^^ Suc n) sw = Shutdown sw
   \<and> Shutdown (s\<lparr>shutdownOnce := True\<rparr>, w) = (s\<lparr>shutdownOnce := True\<rparr>, w)
   \<and> shutdown (fst (Shutdown (s\<lparr>shutdownOnce := False\<rparr>, w)))
   \<and> new_calls w (snd ((Shutdown ^^ Suc n) (s\<lparr>shutdownOnce := False\<rparr>, w))) =
       release_calls TracerProvider ''spectra: failed to shutdown tracer provider: ''
         (ShutdownTimeout (config s)) (tracerProvider s)
       @ release_calls MeterProvider ''spectra: failed to shutdown meter provider: ''
           (ShutdownTimeout (config s)) (meterProvider s)
   \<and> length (filter is_release
         (new_calls w (snd ((Shutdown ^^ Suc n) (s\<lparr>shutdownOnce := False\<rparr>, w))))) =
       (case tracerProvider s of None \<Rightarrow> 0 | Some x \<Rightarrow> 1)
       + (case meterProvider s of None \<Rightarrow> 0 | Some x \<Rightarrow> 1)"
proof -
  have a: "Shutdown (s\<lparr>shutdownOnce := True\<rparr>, w) = (s\<lparr>shutdownOnce := True\<rparr>, w)"
    by (simp add: Shutdown_done)
  have b: "shutdown (fst (Shutdown (s\<lparr>shutdownOnce := False\<rparr>, w)))"
    by (simp add: Shutdown_def Let_def)
  have c: "new_calls w (snd ((Shutdown ^^ Suc n) (s\<lparr>shutdownOnce := False\<rparr>, w))) =
       release_calls TracerProvider ''spectra: failed to shutdown tracer provider: ''
         (ShutdownTimeout (config s)) (tracerProvider s)
       @ release_calls MeterProvider ''spectra: failed to shutdown meter provider: ''
           (ShutdownTimeout (config s)) (meterProvider s)"
    unfolding Shutdown_many new_calls_def Shutdown_first_calls by simp
  show ?thesis
    unfolding c using a b
    by (simp only: Shutdown_twice Shutdown_many filter_append length_append
        length_filter_release simp_thms)
qed

subsection \<open>Initialising the metrics registry\<close>

lemma initMetrics_once:
  "metricsOnce w \<Longrightarrow> initMetrics m w = (None, w)"
  by (simp add: initMetrics_def)

lemma initMetrics_fires:
  "metricsOnce (snd (initMetrics m w))"
  by (simp add: initMetrics_def Let_def split: option.splits)

lemma initMetrics_second_call:
  "initMetrics m2 (snd (initMetrics m1 w)) = (None, snd (initMetrics m1 w))"
  by (rule initMetrics_once) (rule initMetrics_fires)

text \<open>
  C9. The instruments are created by the first call of \<open>initMetrics\<close> only. When the meter
  rejects the histogram, that first call returns the error and leaves \<open>testMetrics\<close>
  unset; the second call does not run the initialiser, its \<open>initErr\<close> is a fresh local
  variable, and it returns \<open>nil\<close>. The error is not kept for later callers.
\<close>

theorem initMetrics_error_not_kept:
  "fst (initMetrics \<lparr>histogram_error = Some ''rejected'', counter_error = None\<rparr>
         \<lparr>calls = [], next_span = 0, now = 0, metricsOnce = False, testMetrics = None\<rparr>)
     = Some ''create duration histogram: rejected''
   \<and> initMetrics \<lparr>histogram_error = Some ''rejected'', counter_error = None\<rparr>
         (snd (initMetrics \<lparr>histogram_error = Some ''rejected'', counter_error = None\<rparr>
            \<lparr>calls = [], next_span = 0, now = 0, metricsOnce = False, testMetrics = None\<rparr>))
     = (None,
        \<lparr>calls = [MeterFloat64Histogram ''test.duration''
                     ''Duration of test execution in seconds'' ''s''],
         next_span = 0, now = 0, metricsOnce = True, testMetrics = None\<rparr>)"
  by (simp add: initMetrics_def Let_def emit_def)

subsection \<open>The aborting operations\<close>

lemma recordLog_calls:
  "calls (recordLog message level t w) = calls w @ log_event t message level"
  by (simp add: recordLog_def log_event_def span_AddEvent_def logEventName_def
      attrMessage_def attrLevel_def)

lemma recordLog_frame [simp]:
  "next_span (recordLog message level t w) = next_span w"
  "now (recordLog message level t w) = now w"
  "metricsOnce (recordLog message level t w) = metricsOnce w"
  "testMetrics (recordLog message level t w) = testMetrics w"
  by (simp_all add: recordLog_def span_AddEvent_def)

lemma log_event_frame [simp]:
  "log_event (t\<lparr>failed := b\<rparr>) message level = log_event t message level"
  "log_event (t\<lparr>tb := h\<rparr>) message level = log_event t message level"
  by (simp_all add: log_event_def)

lemma T_Fatal_result:
  "T_Fatal a (t, w) =
     (leave (tb t), t\<lparr>tb := mark_failed (tb t), failed := True\<rparr>,
      snd (snd (T_Fatal a (t, w))))"
  by (simp add: T_Fatal_def T_Helper_def tb_Fatal_def setFailed_def Let_def)

lemma T_Fatal_calls:
  "calls (snd (snd (T_Fatal a (t, w)))) =
     calls w @ [TbHelper (h_name (tb t))] @ log_event t (concat a) ''fatal''
       @ [SpanSetStatus (span t) codes_Error ''test fatal'', TbFatal (h_name (tb t)) a]"
  by (simp add: T_Fatal_def T_Helper_def tb_Fatal_def setFailed_def Let_def tb_Helper_def
      span_SetStatus_def recordLog_calls formatArgs_def levelFatal_def)

lemma T_Fatalf_result:
  "T_Fatalf F f a (t, w) =
     (leave (tb t), t\<lparr>tb := mark_failed (tb t), failed := True\<rparr>,
      snd (snd (T_Fatalf F f a (t, w))))"
  by (simp add: T_Fatalf_def T_Helper_def tb_Fatalf_def setFailed_def Let_def)

lemma T_Fatalf_calls:
  "calls (snd (snd (T_Fatalf F f a (t, w)))) =
     calls w @ [TbHelper (h_name (tb t))] @ log_event t (F f a) ''fatal''
       @ [SpanSetStatus (span t) codes_Error ''test fatal'', TbFatalf (h_name (tb t)) f a]"
  by (simp add: T_Fatalf_def T_Helper_def tb_Fatalf_def setFailed_def Let_def tb_Helper_def
      span_SetStatus_def recordLog_calls formatf_def levelFatal_def)

lemma T_Skip_result:
  "T_Skip a (t, w) =
     (leave (tb t), t\<lparr>tb := mark_skipped (tb t)\<rparr>, snd (snd (T_Skip a (t, w))))"
  by (simp add: T_Skip_def T_Helper_def tb_Skip_def Let_def)

lemma T_Skip_calls:
  "calls (snd (snd (T_Skip a (t, w)))) =
     calls w @ [TbHelper (h_name (tb t))] @ log_event t (concat a) ''skip''
       @ [SpanSetStatus (span t) codes_Ok ''test skipped'', TbSkip (h_name (tb t)) a]"
  by (simp add: T_Skip_def T_Helper_def tb_Skip_def Let_def tb_Helper_def
      span_SetStatus_def recordLog_calls formatArgs_def levelSkip_def)

text \<open>
  C4, as the code has it. \<open>Fatal\<close> and \<open>Fatalf\<close> set the wrapper's flag, add the event
  with level "fatal" unless the session has log capture disabled, and set the span's
  status to \<open>Error\<close> with "test fatal"; the call on the handle's \<open>Fatal\<close> or \<open>Fatalf\<close>
  comes after these and is the last thing they do. On a handle whose \<open>Fatal\<close> leaves the
  goroutine the call does not return.
\<close>

theorem Fatal_bookkeeping_precedes_forwarding:
  "fst (T_Fatal a (t, w)) = (if aborts (h_kind (tb t)) then Goexit else Continue)
   \<and> failed (fst (snd (T_Fatal a (t, w))))
   \<and> new_calls w (snd (snd (T_Fatal a (t, w)))) =
       [TbHelper (h_name (tb t))]
       @ (if (case spectra t of None \<Rightarrow> False | Some s \<Rightarrow> DisableLogs (config s)) then []
          else [SpanAddEvent (span t) ''log'' [(''message'', concat a), (''level'', ''fatal'')]])
       @ [SpanSetStatus (span t) codes_Error ''test fatal'', TbFatal (h_name (tb t)) a]
   \<and> fst (T_Fatalf F f a (t, w)) = (if aborts (h_kind (tb t)) then Goexit else Continue)
   \<and> failed (fst (snd (T_Fatalf F f a (t, w))))
   \<and> new_calls w (snd (snd (T_Fatalf F f a (t, w)))) =
       [TbHelper (h_name (tb t))]
       @ (if (case spectra t of None \<Rightarrow> False | Some s \<Rightarrow> DisableLogs (config s)) then []
          else [SpanAddEvent (span t) ''log'' [(''message'', F f a), (''level'', ''fatal'')]])
       @ [SpanSetStatus (span t) codes_Error ''test fatal'', TbFatalf (h_name (tb t)) f a]"
proof -
  have 1: "fst (T_Fatal a (t, w)) = leave (tb t)" "failed (fst (snd (T_Fatal a (t, w))))"
    by (subst T_Fatal_result, simp)+
  have 2: "fst (T_Fatalf F f a (t, w)) = leave (tb t)"
    "failed (fst (snd (T_Fatalf F f a (t, w))))"
    by (subst T_Fatalf_result, simp)+
  show ?thesis
    using 1 2
    by (simp add: new_calls_def T_Fatal_calls T_Fatalf_calls log_event_def leave_def)
qed

text \<open>
  A wrapper of a session with log capture disabled: \<open>Fatal\<close> forwards the call without
  having added an event to the span.
\<close>

theorem Fatal_without_event_counterexample:
  "calls (snd (snd (T_Fatal [''boom'']
      (\<lparr>tb = \<lparr>h_name = ''TestX'', h_kind = TestingT, h_failed = False, h_skipped = False,
              h_cleanups = [NewCleanup 0 (Some 0)]\<rparr>,
        ctx = Some 0, span = 0, t_tracer = GlobalTracer ''spectra'',
        spectra = Some \<lparr>config = \<lparr>ServiceName = ''svc'', Endpoint = ''grpc://localhost:4317'',
                                   Insecure = False, ShutdownTimeout = 5, DisableTraces = False,
                                   DisableMetrics = False, DisableLogs = True\<rparr>,
                         tracerProvider = None, meterProvider = None, tracer = None,
                         shutdownOnce = False, initialized = True, shutdown = False\<rparr>,
        failed = False, startTime = 0\<rparr>,
       \<lparr>calls = [], next_span = 1, now = 0, metricsOnce = False, testMetrics = None\<rparr>))))
   = [TbHelper ''TestX'', SpanSetStatus 0 codes_Error ''test fatal'',
      TbFatal ''TestX'' [''boom'']]"
  by (simp add: T_Fatal_def T_Helper_def tb_Fatal_def setFailed_def Let_def tb_Helper_def
      span_SetStatus_def recordLog_def emit_def)

subsection \<open>The operations with a fixed message\<close>

lemma T_FailNow_result:
  "T_FailNow (t, w) =
     (leave (tb t), t\<lparr>tb := mark_failed (tb t), failed := True\<rparr>,
      snd (snd (T_FailNow (t, w))))"
  by (simp add: T_FailNow_def T_Helper_def tb_FailNow_def setFailed_def Let_def)

lemma T_FailNow_calls:
  "calls (snd (snd (T_FailNow (t, w)))) =
     calls w @ [TbHelper (h_name (tb t))] @ log_event t ''test failed'' ''fatal''
       @ [SpanSetStatus (span t) codes_Error ''test failed'', TbFailNow (h_name (tb t))]"
  by (simp add: T_FailNow_def T_Helper_def tb_FailNow_def setFailed_def Let_def tb_Helper_def
      span_SetStatus_def recordLog_calls levelFatal_def)

lemma T_SkipNow_result:
  "T_SkipNow (t, w) =
     (leave (tb t), t\<lparr>tb := mark_skipped (tb t)\<rparr>, snd (snd (T_SkipNow (t, w))))"
  by (simp add: T_SkipNow_def T_Helper_def tb_SkipNow_def Let_def)

lemma T_SkipNow_calls:
  "calls (snd (snd (T_SkipNow (t, w)))) =
     calls w @ [TbHelper (h_name (tb t))] @ log_event t ''test skipped'' ''skip''
       @ [SpanSetStatus (span t) codes_Ok ''test skipped'', TbSkipNow (h_name (tb t))]"
  by (simp add: T_SkipNow_def T_Helper_def tb_SkipNow_def Let_def tb_Helper_def
      span_SetStatus_def recordLog_calls levelSkip_def)

lemma map_fixed_variant_log_event [simp]:
  "map fixed_variant (log_event t message level) = log_event t message level"
  by (simp add: log_event_def)

text \<open>
  C5. \<open>FailNow\<close> does what \<open>Fatal\<close> does when called with the one operand "test failed",
  and \<open>SkipNow\<close> what \<open>Skip\<close> does with "test skipped": the same control outcome, the same
  wrapper afterwards, and the same calls in the same order, except that the status carries
  the fixed message and that the call is forwarded to the handle's \<open>FailNow\<close> or \<open>SkipNow\<close>,
  which takes no text.
\<close>

theorem FailNow_SkipNow_as_Fatal_Skip:
  "fst (T_FailNow (t, w)) = fst (T_Fatal [''test failed''] (t, w))
   \<and> fst (snd (T_FailNow (t, w))) = fst (snd (T_Fatal [''test failed''] (t, w)))
   \<and> new_calls w (snd (snd (T_FailNow (t, w)))) =
       map fixed_variant (new_calls w (snd (snd (T_Fatal [''test failed''] (t, w)))))
   \<and> fst (T_SkipNow (t, w)) = fst (T_Skip [''test skipped''] (t, w))
   \<and> fst (snd (T_SkipNow (t, w))) = fst (snd (T_Skip [''test skipped''] (t, w)))
   \<and> new_calls w (snd (snd (T_SkipNow (t, w)))) =
       map fixed_variant (new_calls w (snd (snd (T_Skip [''test skipped''] (t, w)))))
   \<and> new_calls w (snd (snd (T_FailNow (t, w)))) =
       [TbHelper (h_name (tb t))] @ log_event t ''test failed'' ''fatal''
       @ [SpanSetStatus (span t) codes_Error ''test failed'', TbFailNow (h_name (tb t))]
   \<and> new_calls w (snd (snd (T_SkipNow (t, w)))) =
       [TbHelper (h_name (tb t))] @ log_event t ''test skipped'' ''skip''
       @ [SpanSetStatus (span t) codes_Ok ''test skipped'', TbSkipNow (h_name (tb t))]"
proof -
  have 1: "fst (T_FailNow (t, w)) = fst (T_Fatal [''test failed''] (t, w))"
    "fst (snd (T_FailNow (t, w))) = fst (snd (T_Fatal [''test failed''] (t, w)))"
    by (subst T_FailNow_result, subst T_Fatal_result, simp)+
  have 2: "fst (T_SkipNow (t, w)) = fst (T_Skip [''test skipped''] (t, w))"
    "fst (snd (T_SkipNow (t, w))) = fst (snd (T_Skip [''test skipped''] (t, w)))"
    by (subst T_SkipNow_result, subst T_Skip_result, simp)+
  show ?thesis
    using 1 2
    by (simp add: new_calls_def T_FailNow_calls T_Fatal_calls T_SkipNow_calls T_Skip_calls)
qed

subsection \<open>What a test body leaves untouched\<close>

lemma apart_mono: "apart n c \<Longrightarrow> m \<le> n \<Longrightarrow> apart m c"
  by (cases c) simp_all

lemma list_all_apart_mono: "list_all (apart n) cs \<Longrightarrow> m \<le> n \<Longrightarrow> list_all (apart m) cs"
  by (induction cs) (auto intro: apart_mono)

lemma ext_refl [simp]: "ext w w"
  by (simp add: ext_def)

lemma ext_trans: "ext w w1 \<Longrightarrow> ext w1 w2 \<Longrightarrow> ext w w2"
  unfolding ext_def
  by (auto intro: list_all_apart_mono)

lemma ext_emit: "apart (next_span w) c \<Longrightarrow> ext w (emit c w)"
  by (simp add: ext_def)

lemma ext_now [simp]: "ext w (w\<lparr>now := d\<rparr>)"
  by (simp add: ext_def)

lemma keeps_refl [simp]: "keeps t t"
  by (simp add: keeps_def)

lemma keeps_trans: "keeps t t1 \<Longrightarrow> keeps t1 t2 \<Longrightarrow> keeps t t2"
  unfolding keeps_def by auto

lemma ext_recordLog: "ext w (recordLog m l t w)"
  by (simp add: recordLog_def span_AddEvent_def ext_emit)

lemma ext_tracer_Start:
  "tracer_Start tr c n a w = (c1, sp, w1) \<Longrightarrow> ext w w1 \<and> sp = next_span w \<and> next_span w1 = Suc sp \<and> c1 = Some sp"
  by (auto simp: tracer_Start_def Let_def ext_def emit_def)

lemmas method_defs =
  T_Helper_def T_Log_def T_Logf_def T_Error_def T_Errorf_def T_Fatal_def T_Fatalf_def
  T_Skip_def T_Skipf_def T_SetAttributes_def T_AddEvent_def T_StartSpan_def T_Setup_def
  T_Teardown_def T_Cleanup_def tb_Helper_def tb_Log_def tb_Logf_def tb_Error_def
  tb_Errorf_def tb_Fatal_def tb_Fatalf_def tb_Skip_def tb_Skipf_def tb_Cleanup_def
  span_SetStatus_def span_AddEvent_def span_SetAttributes_def span_End_def
  tracer_Start_def recordLog_def setFailed_def mark_failed_def mark_skipped_def

lemma exec_simple_keeps:
  assumes "\<And>name body. s \<noteq> Run name body" and "exec_stmt F s (t, w) = (c, t1, w1)"
  shows "keeps t t1"
  using assms
  by (cases s) (auto simp: method_defs Let_def keeps_def split: prod.splits if_splits)

lemma exec_simple_ext:
  assumes "\<And>name body. s \<noteq> Run name body" and "exec_stmt F s (t, w) = (c, t1, w1)"
  shows "ext w w1"
  using assms
  by (cases s) (auto simp: method_defs Let_def ext_def emit_def split: prod.splits if_splits)

lemma exec_simple:
  assumes "\<And>name body. s \<noteq> Run name body" and "exec_stmt F s tw = (c, t1, w1)"
  shows "keeps (fst tw) t1 \<and> ext (snd tw) w1"
  using assms exec_simple_keeps [of s F "fst tw" "snd tw" c t1 w1]
    exec_simple_ext [of s F "fst tw" "snd tw" c t1 w1]
  by simp

subsection \<open>The cleanup phase\<close>

lemma run_all_append: "run_all (fs @ gs) t w = run_all gs t (run_all fs t w)"
  by (induction fs arbitrary: w) simp_all

lemma ext_run_cleanup_inert: "inert f \<Longrightarrow> ext w (run_cleanup f t w)"
  by (cases f) (auto simp: tracer_Start_def span_End_def Let_def ext_def emit_def)

lemma ext_run_all_inert: "list_all inert fs \<Longrightarrow> ext w (run_all fs t w)"
proof (induction fs arbitrary: w)
  case Nil
  then show ?case by simp
next
  case (Cons f fs)
  then have "ext w (run_cleanup f t w)" and "ext (run_cleanup f t w) (run_all fs t (run_cleanup f t w))"
    by (simp_all add: ext_run_cleanup_inert)
  then show ?case by (auto intro: ext_trans)
qed

lemma now_run_cleanup_inert: "inert f \<Longrightarrow> now (run_cleanup f t w) = now w"
  by (cases f) (auto simp: tracer_Start_def span_End_def Let_def emit_def)

lemma now_run_all_inert: "list_all inert fs \<Longrightarrow> now (run_all fs t w) = now w"
  by (induction fs arbitrary: w) (simp_all add: now_run_cleanup_inert)

lemma RunCleanup_calls:
  "calls (run_cleanup (RunCleanup spn) t w) =
     calls w @ [SpanSetStatus spn (fst (determineSubtestStatus (tb t)))
                  (snd (determineSubtestStatus (tb t))), SpanEnd spn]"
  by (cases "determineSubtestStatus (tb t)") (simp add: span_SetStatus_def span_End_def Let_def)

lemma RunCleanup_frame [simp]:
  "next_span (run_cleanup (RunCleanup spn) t w) = next_span w"
  "now (run_cleanup (RunCleanup spn) t w) = now w"
  "metricsOnce (run_cleanup (RunCleanup spn) t w) = metricsOnce w"
  "testMetrics (run_cleanup (RunCleanup spn) t w) = testMetrics w"
  by (cases "determineSubtestStatus (tb t)"; simp add: span_SetStatus_def span_End_def Let_def)+

lemma NewCleanup_frame [simp]:
  "next_span (run_cleanup (NewCleanup spn c) t w) = next_span w"
  "now (run_cleanup (NewCleanup spn c) t w) = now w"
  "metricsOnce (run_cleanup (NewCleanup spn c) t w) = metricsOnce w"
  "testMetrics (run_cleanup (NewCleanup spn c) t w) = testMetrics w"
  by (cases "determineStatus t"; simp add: span_SetStatus_def span_End_def Let_def)+

declare run_cleanup.simps [simp del]

lemma ext_then:
  assumes "ext w w1" and "calls w2 = calls w1 @ cs" and "list_all (apart (next_span w)) cs"
    and "next_span w2 = next_span w1" and "testMetrics w2 = testMetrics w1"
    and "metricsOnce w2 = metricsOnce w1"
  shows "ext w w2"
  using assms unfolding ext_def by auto

subsection \<open>Subtests\<close>

lemma subtest_start_eq:
  "subtest_start t name w =
     (\<lparr>tb = (subtest_handle (tb t) name)\<lparr>h_cleanups := [RunCleanup (next_span w)]\<rparr>,
       ctx = Some (next_span w), span = next_span w, t_tracer = t_tracer t,
       spectra = spectra t, failed = False, startTime = 0\<rparr>,
      (w\<lparr>next_span := Suc (next_span w)\<rparr>)\<lparr>calls := calls w @
        [TbHelper (h_name (tb t)), TbRun (h_name (tb t)) name,
         TbHelper (h_name (tb t) @ ''/'' @ name),
         TracerStart (t_tracer t) (ctx t) (h_name (tb t) @ ''/'' @ name)
           [(''test.name'', h_name (tb t) @ ''/'' @ name), (''test.parent'', h_name (tb t))]
           (next_span w),
         TbCleanup (h_name (tb t) @ ''/'' @ name)]\<rparr>)"
  by (simp add: subtest_start_def Run_closure_def subtest_handle_def tb_Helper_def
      tracer_Start_def tb_Cleanup_def tb_Name_def T_Name_def emit_def Let_def
      attrTestName_def attrTestParent_def)

lemma Run_closure_eq:
  "Run_closure t f (subtest_handle (tb t) name)
     (emit (TbRun (h_name (tb t)) name) (tb_Helper (tb t) w)) = snd (f (subtest_start t name w))"
  by (simp add: subtest_start_def Run_closure_def Let_def split: prod.splits)

lemma T_Run_TestingT:
  assumes "h_kind (tb t) = TestingT"
  shows "T_Run name f (t, w) =
     (case run_cleanups (snd (f (subtest_start t name w))) of
        (st, w1) \<Rightarrow> (Some (\<not> h_failed (tb st)),
                     t\<lparr>tb := (tb t)\<lparr>h_failed := h_failed (tb t) \<or> h_failed (tb st)\<rparr>\<rparr>, w1))"
  using assms
  by (simp add: T_Run_def T_Helper_def tt_Run_def Run_closure_eq Let_def split: prod.splits)

lemma list_all_inert_rev: "list_all inert fs \<Longrightarrow> list_all inert (rev fs)"
  by (simp add: list_all_iff)

lemma subtest_shape:
  assumes kind: "h_kind (tb t) = TestingT"
    and f: "f (subtest_start t name w) = (c, st, w1)"
    and k: "keeps (fst (subtest_start t name w)) st"
    and e: "ext (snd (subtest_start t name w)) w1"
  shows "\<exists>mid w2.
      T_Run name f (t, w) =
        (Some (\<not> h_failed (tb st)),
         t\<lparr>tb := (tb t)\<lparr>h_failed := h_failed (tb t) \<or> h_failed (tb st)\<rparr>\<rparr>, w2)
      \<and> calls w2 = calls (snd (subtest_start t name w)) @ mid
          @ [SpanSetStatus (next_span w) (fst (determineSubtestStatus (tb st)))
               (snd (determineSubtestStatus (tb st))), SpanEnd (next_span w)]
      \<and> list_all (apart (Suc (next_span w))) mid
      \<and> Suc (next_span w) \<le> next_span w2
      \<and> testMetrics w2 = testMetrics w \<and> metricsOnce w2 = metricsOnce w"
proof -
  let ?n = "next_span w"
  let ?w0 = "snd (subtest_start t name w)"
  from k obtain fs where fs: "h_cleanups (tb st) = [RunCleanup ?n] @ fs" "list_all inert fs"
    by (auto simp: keeps_def subtest_start_eq)
  let ?wx = "run_all (rev fs) st w1"
  let ?w2 = "run_cleanup (RunCleanup ?n) st ?wx"
  have "ext w1 ?wx"
    using fs(2) by (simp add: ext_run_all_inert list_all_inert_rev)
  with e have ex: "ext ?w0 ?wx"
    by (rule ext_trans)
  then obtain mid where mid: "calls ?wx = calls ?w0 @ mid" "list_all (apart (next_span ?w0)) mid"
    by (auto simp: ext_def)
  have n0: "next_span ?w0 = Suc ?n" "testMetrics ?w0 = testMetrics w"
    "metricsOnce ?w0 = metricsOnce w"
    by (simp_all add: subtest_start_eq)
  have run: "run_cleanups (st, w1) = (st\<lparr>tb := (tb st)\<lparr>h_cleanups := []\<rparr>\<rparr>, ?w2)"
    by (simp add: run_cleanups_def fs(1) run_all_append)
  have res: "T_Run name f (t, w) =
        (Some (\<not> h_failed (tb st)),
         t\<lparr>tb := (tb t)\<lparr>h_failed := h_failed (tb t) \<or> h_failed (tb st)\<rparr>\<rparr>, ?w2)"
    by (simp add: T_Run_TestingT [OF kind] f run)
  have cs: "calls ?w2 = calls ?w0 @ mid
          @ [SpanSetStatus ?n (fst (determineSubtestStatus (tb st)))
               (snd (determineSubtestStatus (tb st))), SpanEnd ?n]"
    by (simp add: RunCleanup_calls mid(1) del: run_cleanup.simps)
  have fr: "Suc ?n \<le> next_span ?w2" "testMetrics ?w2 = testMetrics w"
    "metricsOnce ?w2 = metricsOnce w"
    using ex n0 by (simp_all add: ext_def del: run_cleanup.simps)
  show ?thesis
    using res cs mid(2) fr n0(1) by (auto simp del: run_cleanup.simps)
qed

lemma T_Run_inv:
  assumes f: "\<And>x c t1 w1. f x = (c, t1, w1) \<Longrightarrow> keeps (fst x) t1 \<and> ext (snd x) w1"
    and r: "T_Run name f (t, w) = (r, t2, w2)"
  shows "keeps t t2 \<and> ext w w2"
proof (cases "h_kind (tb t) = TestingT")
  case True
  obtain c st w1 where fx: "f (subtest_start t name w) = (c, st, w1)"
    by (cases "f (subtest_start t name w)") auto
  from f [OF fx] have k: "keeps (fst (subtest_start t name w)) st"
    and e: "ext (snd (subtest_start t name w)) w1" by simp_all
  from subtest_shape [where f = f, OF True fx k e] r obtain mid where
    t2: "t2 = t\<lparr>tb := (tb t)\<lparr>h_failed := h_failed (tb t) \<or> h_failed (tb st)\<rparr>\<rparr>"
    and cs: "calls w2 = calls (snd (subtest_start t name w)) @ mid
          @ [SpanSetStatus (next_span w) (fst (determineSubtestStatus (tb st)))
               (snd (determineSubtestStatus (tb st))), SpanEnd (next_span w)]"
    and mid: "list_all (apart (Suc (next_span w))) mid"
    and fr: "Suc (next_span w) \<le> next_span w2" "testMetrics w2 = testMetrics w"
      "metricsOnce w2 = metricsOnce w"
    by auto
  have "keeps t t2"
    by (simp add: t2 keeps_def)
  moreover have "list_all (apart (next_span w)) mid"
    using mid by (rule list_all_apart_mono) simp
  then have "ext w w2"
    using cs fr by (simp add: ext_def subtest_start_eq)
  ultimately show ?thesis by simp
next
  case False
  obtain t0 w0 where h: "T_Helper (t, w) = (t0, w0)"
    by (cases "T_Helper (t, w)") auto
  then have h1: "exec_stmt F Helper (t, w) = (Continue, t0, w0)" for F
    by simp
  have k0: "keeps t t0" and e0: "ext w w0"
    using exec_simple_keeps [OF _ h1] exec_simple_ext [OF _ h1] by simp_all
  have kind0: "h_kind (tb t0) \<noteq> TestingT"
    using False k0 by (simp add: keeps_def)
  obtain c1 t1 w1 where ft: "T_Fatal [''spectra: Run() requires *testing.T, not *testing.B''] (t0, w0) = (c1, t1, w1)"
    by (cases "T_Fatal [''spectra: Run() requires *testing.T, not *testing.B''] (t0, w0)") auto
  then have f1: "exec_stmt F (Fatal [''spectra: Run() requires *testing.T, not *testing.B'']) (t0, w0) = (c1, t1, w1)" for F
    by simp
  have k1: "keeps t0 t1" and e1: "ext w0 w1"
    using exec_simple_keeps [OF _ f1] exec_simple_ext [OF _ f1] by simp_all
  have "t2 = t1 \<and> w2 = w1"
    using r h ft kind0
    by (cases c1) (simp_all add: T_Run_def)
  then show ?thesis
    using k0 k1 e0 e1 by (auto intro: keeps_trans ext_trans)
qed

lemma exec_inv:
  "exec_stmt F s tw = (c, t1, w1) \<Longrightarrow> keeps (fst tw) t1 \<and> ext (snd tw) w1"
  "exec_body F ss tw = (c, t1, w1) \<Longrightarrow> keeps (fst tw) t1 \<and> ext (snd tw) w1"
proof (induction F s tw and F ss tw arbitrary: c t1 w1 and c t1 w1
    rule: exec_stmt_exec_body.induct)
  case (16 F name body tw)
  obtain t w where tw: "tw = (t, w)" by (cases tw) auto
  obtain r t2 w2 where r: "T_Run name (\<lambda>x. exec_body F body x) (t, w) = (r, t2, w2)"
    by (cases "T_Run name (\<lambda>x. exec_body F body x) (t, w)") auto
  have "keeps t t2 \<and> ext w w2"
    by (rule T_Run_inv [OF _ r]) (rule "16.IH")
  moreover have "t1 = t2 \<and> w1 = w2"
    using "16.prems" r tw by (cases r) auto
  ultimately show ?case by (simp add: tw)
next
  case (18 F tw)
  then show ?case by simp
next
  case (19 F s ss tw)
  obtain c0 t0 w0 where s: "exec_stmt F s tw = (c0, t0, w0)"
    by (cases "exec_stmt F s tw") auto
  from "19.IH"(1) [OF s] have a: "keeps (fst tw) t0" "ext (snd tw) w0" by simp_all
  show ?case
  proof (cases c0)
    case Continue
    with "19.prems" s have "exec_body F ss (t0, w0) = (c, t1, w1)" by simp
    from "19.IH"(2) [OF s [symmetric] Continue this] a
    show ?thesis by (auto intro: keeps_trans ext_trans)
  next
    case Goexit
    with "19.prems" s a show ?thesis by simp
  qed
qed (erule exec_simple [rotated], simp)+

subsection \<open>A whole test\<close>

lemma New_ok:
  assumes "New s h w = (Inr t, w1)"
  shows "span t = next_span w" and "ctx t = Some (next_span w)" and "startTime t = now w"
    and "failed t = False" and "spectra t = s"
    and "tb t = h\<lparr>h_cleanups := h_cleanups h @ [NewCleanup (next_span w) (Some (next_span w))]\<rparr>"
    and "calls w1 = calls w @
           [TbHelper (h_name h),
            TracerStart (t_tracer t) None (h_name h) [(''test.name'', h_name h)] (next_span w),
            TbCleanup (h_name h)]"
    and "next_span w1 = Suc (next_span w)" and "testMetrics w1 = testMetrics w"
    and "metricsOnce w1 = metricsOnce w" and "now w1 = now w"
  using assms
  by (auto simp: New_def tb_Helper_def tracer_Start_def tb_Cleanup_def tb_Name_def
      attrTestName_def emit_def Let_def split: option.splits if_splits)

lemma apart_Suc_set:
  "list_all (apart (Suc n)) cs \<Longrightarrow> SpanEnd n \<notin> set cs \<and> filter is_metric cs = []"
proof (induction cs)
  case Nil
  then show ?case by simp
next
  case (Cons c cs)
  then show ?case by (cases c) auto
qed

lemma determineStatus_cong:
  "failed t1 = failed t \<Longrightarrow> h_failed (tb t1) = h_failed (tb t)
   \<Longrightarrow> h_skipped (tb t1) = h_skipped (tb t) \<Longrightarrow> determineStatus t1 = determineStatus t"
  by (simp add: determineStatus_def hasFailed_def tb_Failed_def tb_Skipped_def)

lemma metric_records_cong:
  "testMetrics w1 = testMetrics w \<Longrightarrow> metric_records w1 = metric_records w"
  by (intro ext) (simp add: metric_records_def)

lemma run_all_user: "list_all is_user fs \<Longrightarrow> run_all fs t w = w"
proof (induction fs arbitrary: w)
  case Nil
  then show ?case by simp
next
  case (Cons f fs)
  then show ?case by (cases f) (simp_all add: run_cleanup.simps)
qed

lemma run_test_shape:
  assumes new: "New s h w = (Inr t, w1)" and fresh: "list_all is_user (h_cleanups h)"
    and body: "exec_body F body (t, w1) = (c, t2, w2)"
  shows "\<exists>mid w3.
      run_test F s h body w = (Inr (t2\<lparr>tb := (tb t2)\<lparr>h_cleanups := []\<rparr>\<rparr>), w3)
      \<and> calls w3 = calls w1 @ mid
          @ [SpanSetStatus (span t) (fst (determineStatus t2)) (fst (snd (determineStatus t2))),
             SpanEnd (span t)]
          @ metric_records w3 (ctx t) (h_name h) (now w3 - startTime t)
              (snd (snd (determineStatus t2)))
      \<and> list_all (apart (Suc (span t))) mid
      \<and> keeps t t2"
proof -
  let ?n = "next_span w"
  note n = New_ok [OF new]
  from exec_inv(2) [OF body] have k: "keeps t t2" and e: "ext w1 w2"
    by simp_all
  from k n(6) obtain fs where
    fs: "h_cleanups (tb t2) = h_cleanups h @ [NewCleanup ?n (Some ?n)] @ fs" "list_all inert fs"
    by (auto simp: keeps_def)
  have user: "run_all (rev (h_cleanups h)) t2 x = x" for x
    using fresh by (simp add: run_all_user list_all_iff)
  let ?wx = "run_all (rev fs) t2 w2"
  let ?w3 = "run_cleanup (NewCleanup ?n (Some ?n)) t2 ?wx"
  have "ext w2 ?wx"
    using fs(2) by (simp add: ext_run_all_inert list_all_inert_rev)
  with e have ex: "ext w1 ?wx"
    by (rule ext_trans)
  then obtain mid where mid: "calls ?wx = calls w1 @ mid" "list_all (apart (next_span w1)) mid"
    by (auto simp: ext_def)
  have run: "run_cleanups (t2, w2) = (t2\<lparr>tb := (tb t2)\<lparr>h_cleanups := []\<rparr>\<rparr>, ?w3)"
    by (simp add: run_cleanups_def fs(1) run_all_append user)
  have res: "run_test F s h body w = (Inr (t2\<lparr>tb := (tb t2)\<lparr>h_cleanups := []\<rparr>\<rparr>), ?w3)"
    by (simp add: run_test_def new body run del: run_cleanup.simps)
  have t2: "span t = ?n" "ctx t = Some ?n" "h_name (tb t2) = h_name h"
    "startTime t2 = startTime t"
    using n k by (simp_all add: keeps_def)
  have mr: "metric_records ?w3 = metric_records ?wx"
    by (rule metric_records_cong) simp
  have cs: "calls ?w3 = calls w1 @ mid
          @ [SpanSetStatus (span t) (fst (determineStatus t2)) (fst (snd (determineStatus t2))),
             SpanEnd (span t)]
          @ metric_records ?w3 (ctx t) (h_name h) (now ?w3 - startTime t)
              (snd (snd (determineStatus t2)))"
    unfolding mr by (simp add: NewCleanup_calls mid(1) t2 del: run_cleanup.simps)
  have "list_all (apart (Suc (span t))) mid"
    using mid(2) n(8) t2(1) by simp
  with res cs k show ?thesis
    by blast
qed

lemma invokes_Error_failed:
  "invokes_Error F body tw \<Longrightarrow> failed (fst (snd (exec_body F body tw)))"
proof (induction body arbitrary: tw)
  case Nil
  then show ?case by simp
next
  case (Cons s ss)
  obtain c0 t0 w0 where s: "exec_stmt F s tw = (c0, t0, w0)"
    by (cases "exec_stmt F s tw") auto
  obtain c1 t1 w1 where b: "exec_body F ss (t0, w0) = (c1, t1, w1)"
    by (cases "exec_body F ss (t0, w0)") auto
  from exec_inv(2) [OF b] have k: "failed t0 \<longrightarrow> failed t1"
    by (simp add: keeps_def)
  show ?case
  proof (cases "is_Error s")
    case True
    then have "failed t0"
      using s by (cases s; cases tw) (auto simp: T_Error_def T_Errorf_def T_Helper_def
          setFailed_def tb_Error_def tb_Errorf_def Let_def split: prod.splits)
    with k s b show ?thesis by (cases c0) simp_all
  next
    case False
    with Cons.prems s have c0: "c0 = Continue" and inv: "invokes_Error F ss (t0, w0)"
      by (cases c0; simp)+
    from Cons.IH [OF inv] s c0 show ?thesis by simp
  qed
qed

lemma apart_no_metric: "list_all (apart n) cs \<Longrightarrow> filter is_metric cs = []"
proof (induction cs)
  case Nil
  then show ?case by simp
next
  case (Cons c cs)
  then show ?case by (cases c) auto
qed

lemma ext_no_metric: "ext w w1 \<Longrightarrow> filter is_metric (new_calls w w1) = []"
  by (auto simp: ext_def new_calls_def apart_no_metric)

lemma metric_records_no_end: "SpanEnd n \<notin> set (metric_records w c name d status)"
  by (simp add: metric_records_def split: option.splits)

lemma filter_metric_records:
  "filter is_metric (metric_records w c name d status) = metric_records w c name d status"
  by (simp add: metric_records_def split: option.splits)

lemma run_test_calls:
  assumes new: "New s h w = (Inr t, w1)" and fresh: "list_all is_user (h_cleanups h)"
  shows "\<exists>pre t2. fst (run_test F s h body w) = Inr t2
      \<and> failed t2 = failed (fst (snd (exec_body F body (t, w1))))
      \<and> determineStatus t2 = determineStatus (fst (snd (exec_body F body (t, w1))))
      \<and> new_calls w (snd (run_test F s h body w)) = pre
          @ [SpanSetStatus (span t) (fst (determineStatus t2)) (fst (snd (determineStatus t2))),
             SpanEnd (span t)]
          @ metric_records (snd (run_test F s h body w)) (ctx t) (h_name h)
              (now (snd (run_test F s h body w)) - startTime t) (snd (snd (determineStatus t2)))
      \<and> SpanEnd (span t) \<notin> set pre \<and> filter is_metric pre = []"
proof -
  obtain c t2 w2 where body: "exec_body F body (t, w1) = (c, t2, w2)"
    by (cases "exec_body F body (t, w1)") auto
  from run_test_shape [OF new fresh body] obtain mid w3 where
    res: "run_test F s h body w = (Inr (t2\<lparr>tb := (tb t2)\<lparr>h_cleanups := []\<rparr>\<rparr>), w3)"
    and cs: "calls w3 = calls w1 @ mid
          @ [SpanSetStatus (span t) (fst (determineStatus t2)) (fst (snd (determineStatus t2))),
             SpanEnd (span t)]
          @ metric_records w3 (ctx t) (h_name h) (now w3 - startTime t)
              (snd (snd (determineStatus t2)))"
    and mid: "list_all (apart (Suc (span t))) mid"
    and k: "keeps t t2"
    by blast
  let ?t = "t2\<lparr>tb := (tb t2)\<lparr>h_cleanups := []\<rparr>\<rparr>"
  let ?pre = "[TbHelper (h_name h),
            TracerStart (t_tracer t) None (h_name h) [(''test.name'', h_name h)] (next_span w),
            TbCleanup (h_name h)] @ mid"
  have ds: "determineStatus ?t = determineStatus t2"
    by (rule determineStatus_cong) simp_all
  have nc: "new_calls w w3 = ?pre
          @ [SpanSetStatus (span t) (fst (determineStatus t2)) (fst (snd (determineStatus t2))),
             SpanEnd (span t)]
          @ metric_records w3 (ctx t) (h_name h) (now w3 - startTime t)
              (snd (snd (determineStatus t2)))"
    by (simp add: new_calls_def cs New_ok(7) [OF new])
  have pre: "SpanEnd (span t) \<notin> set ?pre" "filter is_metric ?pre = []"
    using apart_Suc_set [OF mid] by simp_all
  show ?thesis
    apply (rule exI [of _ ?pre])
    apply (rule exI [of _ ?t])
    using nc pre
    apply (simp only: res fst_conv snd_conv ds body)
    apply simp
    done
qed

subsection \<open>Finalisation of a test\<close>

text \<open>
  C1, as the code has it. A test function creates its wrapper, on a handle that so far
  holds cleanup functions of the caller only, and runs any body; the body may return or
  leave through \<open>Fatal\<close> or \<open>Skip\<close>. Among the calls of the whole test, the last ones
  are those of the cleanup function that \<open>New\<close> registered: the status is set, the span
  is ended, and \<open>recordTestMetrics\<close> is called, in this order; that call records one
  duration and one count when the metrics registry has been initialised and nothing when
  it has not. Before them the span of the test is not ended and no metric is recorded, so
  the span is ended exactly once and the metric calls of the test are those of this one
  finalisation.
\<close>

theorem finalization_once_in_order:
  assumes "New s h w = (Inr t, w1)" and "list_all is_user (h_cleanups h)"
  shows "\<exists>pre t2. fst (run_test F s h body w) = Inr t2
      \<and> new_calls w (snd (run_test F s h body w)) = pre
          @ [SpanSetStatus (span t) (fst (determineStatus t2)) (fst (snd (determineStatus t2))),
             SpanEnd (span t)]
          @ metric_records (snd (run_test F s h body w)) (ctx t) (h_name h)
              (now (snd (run_test F s h body w)) - startTime t) (snd (snd (determineStatus t2)))
      \<and> SpanEnd (span t) \<notin> set pre \<and> filter is_metric pre = []
      \<and> length (filter (\<lambda>c. c = SpanEnd (span t))
            (new_calls w (snd (run_test F s h body w)))) = 1
      \<and> filter is_metric (new_calls w (snd (run_test F s h body w))) =
          metric_records (snd (run_test F s h body w)) (ctx t) (h_name h)
            (now (snd (run_test F s h body w)) - startTime t) (snd (snd (determineStatus t2)))"
proof -
  from run_test_calls [OF assms, of F body] obtain pre t2 where
    r: "fst (run_test F s h body w) = Inr t2"
    and nc: "new_calls w (snd (run_test F s h body w)) = pre
          @ [SpanSetStatus (span t) (fst (determineStatus t2)) (fst (snd (determineStatus t2))),
             SpanEnd (span t)]
          @ metric_records (snd (run_test F s h body w)) (ctx t) (h_name h)
              (now (snd (run_test F s h body w)) - startTime t) (snd (snd (determineStatus t2)))"
    and pre: "SpanEnd (span t) \<notin> set pre" "filter is_metric pre = []"
    by blast
  have a: "filter (\<lambda>c. c = SpanEnd (span t)) pre = []"
    using pre(1) by (auto simp: filter_empty_conv)
  have b: "filter (\<lambda>c. c = SpanEnd (span t)) (metric_records w2 c2 name d st) = []"
    for w2 c2 name d st
    by (simp add: metric_records_def split: option.splits)
  have once: "length (filter (\<lambda>c. c = SpanEnd (span t))
            (new_calls w (snd (run_test F s h body w)))) = 1"
    unfolding nc by (simp add: a b)
  have met: "filter is_metric (new_calls w (snd (run_test F s h body w))) =
          metric_records (snd (run_test F s h body w)) (ctx t) (h_name h)
            (now (snd (run_test F s h body w)) - startTime t) (snd (snd (determineStatus t2)))"
    unfolding nc by (simp add: pre(2) filter_metric_records)
  from r nc pre once met show ?thesis
    by blast
qed

text \<open>
  A test of a session with metrics disabled, in a process whose registry was never
  initialised: the finalisation sets the status and ends the span, and no metric is
  recorded.
\<close>

theorem finalization_without_metric_counterexample:
  "new_calls
     \<lparr>calls = [], next_span = 0, now = 0, metricsOnce = False, testMetrics = None\<rparr>
     (snd (run_test ex_sprintf
        (Some \<lparr>config = \<lparr>ServiceName = ''svc'', Endpoint = ''grpc://localhost:4317'',
                             Insecure = False, ShutdownTimeout = 5000000000,
                             DisableTraces = False, DisableMetrics = True,
                             DisableLogs = False\<rparr>,
               tracerProvider = Some (Provider None), meterProvider = None,
               tracer = Some (ProviderTracer ''spectra''), shutdownOnce = False,
               initialized = True, shutdown = False\<rparr>)
        \<lparr>h_name = ''TestX'', h_kind = TestingT, h_failed = False, h_skipped = False,
          h_cleanups = []\<rparr>
        [Log [''hi'']]
        \<lparr>calls = [], next_span = 0, now = 0, metricsOnce = False, testMetrics = None\<rparr>))
   = [TbHelper ''TestX'',
      TracerStart (ProviderTracer ''spectra'') None ''TestX'' [(''test.name'', ''TestX'')] 0,
      TbCleanup ''TestX'',
      TbHelper ''TestX'', TbLog ''TestX'' [''hi''],
      SpanAddEvent 0 ''log'' [(''message'', ''hi''), (''level'', ''info'')],
      SpanSetStatus 0 codes_Ok ''test passed'', SpanEnd 0]"
  by (simp add: method_defs run_test_def run_cleanups_def run_cleanup.simps New_def
      recordTestMetrics_def determineStatus_def hasFailed_def tb_Failed_def tb_Skipped_def
      tb_Name_def formatArgs_def emit_def new_calls_def consts_defs Let_def ex_sprintf_def)

subsection \<open>A test that reports an error\<close>

text \<open>
  C3. When the body of a test reaches a call of \<open>Error\<close> or \<open>Errorf\<close> on the wrapper, the
  wrapper's flag is set at the end of the test, whatever the handle is and whatever its
  \<open>Failed()\<close> reports, and the finalisation sets the status \<open>Error\<close> with "test failed"
  and passes the label "fail" to the metrics registry.
\<close>

theorem Error_forces_failed:
  assumes "New s h w = (Inr t, w1)" and "list_all is_user (h_cleanups h)"
    and "invokes_Error F body (t, w1)"
  shows "\<exists>pre t2. fst (run_test F s h body w) = Inr t2
      \<and> failed t2
      \<and> determineStatus t2 = (codes_Error, ''test failed'', ''fail'')
      \<and> new_calls w (snd (run_test F s h body w)) = pre
          @ [SpanSetStatus (span t) codes_Error ''test failed'', SpanEnd (span t)]
          @ metric_records (snd (run_test F s h body w)) (ctx t) (h_name h)
              (now (snd (run_test F s h body w)) - startTime t) ''fail''"
proof -
  from run_test_calls [OF assms(1,2), of F body] obtain pre t2 where
    r: "fst (run_test F s h body w) = Inr t2"
    and ft: "failed t2 = failed (fst (snd (exec_body F body (t, w1))))"
    and ds: "determineStatus t2 = determineStatus (fst (snd (exec_body F body (t, w1))))"
    and nc: "new_calls w (snd (run_test F s h body w)) = pre
          @ [SpanSetStatus (span t) (fst (determineStatus t2)) (fst (snd (determineStatus t2))),
             SpanEnd (span t)]
          @ metric_records (snd (run_test F s h body w)) (ctx t) (h_name h)
              (now (snd (run_test F s h body w)) - startTime t) (snd (snd (determineStatus t2)))"
    by blast
  have f: "failed (fst (snd (exec_body F body (t, w1))))"
    using assms(3) by (rule invokes_Error_failed)
  then have st: "determineStatus t2 = (codes_Error, ''test failed'', ''fail'')"
    unfolding ds by (simp add: determineStatus_def hasFailed_def statusFail_def)
  have "failed t2"
    using f ft by simp
  with r st nc show ?thesis
    by auto
qed

subsection \<open>Subtests\<close>

lemma determineSubtestStatus_eq:
  "determineSubtestStatus h =
     (if tb_Failed h then codes_Error else codes_Ok,
      if tb_Failed h then ''subtest failed''
      else if tb_Skipped h then ''subtest skipped'' else ''subtest passed'')"
  by (simp add: determineSubtestStatus_def)

text \<open>
  C8. \<open>Run\<close> on a wrapper whose handle is a \<open>*testing.T\<close>. The runner names the nested
  test after its parent, "parent/child". The span of the nested test is started under the
  parent wrapper's context, with the nested test's name as its name, with \<open>test.name\<close>
  that name and \<open>test.parent\<close> the parent's name. When the nested test is over, its
  cleanup sets the status from the nested handle's \<open>Failed()\<close> and \<open>Skipped()\<close> alone
  (\<open>Error\<close> "subtest failed", \<open>Ok\<close> "subtest skipped", \<open>Ok\<close> "subtest passed") and ends
  the span, once. \<open>Run\<close> returns whether the nested test passed.
\<close>

theorem Run_child_span:
  assumes "h_kind (tb t) = TestingT"
  shows "let p = T_Name t;
             child = tb_Name (subtest_handle (tb t) name);
             n = next_span w;
             st = fst (snd (exec_body F body (subtest_start t name w)));
             r = T_Run name (exec_body F body) (t, w)
         in child = p @ ''/'' @ name
            \<and> tb_Name (tb st) = child \<and> span st = n \<and> ctx st = Some n
            \<and> fst r = Some (\<not> tb_Failed (tb st))
            \<and> (\<exists>mid. new_calls w (snd (snd r)) =
                  [TbHelper p, TbRun p name, TbHelper child,
                   TracerStart (t_tracer t) (ctx t) child
                     [(''test.name'', child), (''test.parent'', p)] n,
                   TbCleanup child]
                  @ mid
                  @ [SpanSetStatus n (if tb_Failed (tb st) then codes_Error else codes_Ok)
                       (if tb_Failed (tb st) then ''subtest failed''
                        else if tb_Skipped (tb st) then ''subtest skipped''
                        else ''subtest passed''),
                     SpanEnd n]
                \<and> SpanEnd n \<notin> set mid \<and> filter is_metric mid = [])"
proof -
  obtain c st w1 where body: "exec_body F body (subtest_start t name w) = (c, st, w1)"
    by (cases "exec_body F body (subtest_start t name w)") auto
  from exec_inv(2) [OF body] have k: "keeps (fst (subtest_start t name w)) st"
    and e: "ext (snd (subtest_start t name w)) w1"
    by simp_all
  from subtest_shape [where f = "exec_body F body", OF assms body k e]
  obtain mid w2 where
    res: "T_Run name (exec_body F body) (t, w) =
        (Some (\<not> h_failed (tb st)),
         t\<lparr>tb := (tb t)\<lparr>h_failed := h_failed (tb t) \<or> h_failed (tb st)\<rparr>\<rparr>, w2)"
    and cs: "calls w2 = calls (snd (subtest_start t name w)) @ mid
          @ [SpanSetStatus (next_span w) (fst (determineSubtestStatus (tb st)))
               (snd (determineSubtestStatus (tb st))), SpanEnd (next_span w)]"
    and mid: "list_all (apart (Suc (next_span w))) mid"
    by blast
  have st: "h_name (tb st) = h_name (tb t) @ ''/'' @ name" "span st = next_span w"
    "ctx st = Some (next_span w)"
    using k by (simp_all add: keeps_def subtest_start_eq subtest_handle_def)
  have nc: "new_calls w w2 =
      [TbHelper (h_name (tb t)), TbRun (h_name (tb t)) name,
       TbHelper (h_name (tb t) @ ''/'' @ name),
       TracerStart (t_tracer t) (ctx t) (h_name (tb t) @ ''/'' @ name)
         [(''test.name'', h_name (tb t) @ ''/'' @ name), (''test.parent'', h_name (tb t))]
         (next_span w),
       TbCleanup (h_name (tb t) @ ''/'' @ name)]
      @ mid
      @ [SpanSetStatus (next_span w) (if tb_Failed (tb st) then codes_Error else codes_Ok)
           (if tb_Failed (tb st) then ''subtest failed''
            else if tb_Skipped (tb st) then ''subtest skipped'' else ''subtest passed''),
         SpanEnd (next_span w)]"
    unfolding new_calls_def cs by (simp add: subtest_start_eq determineSubtestStatus_eq)
  have m: "SpanEnd (next_span w) \<notin> set mid" "filter is_metric mid = []"
    using apart_Suc_set [OF mid] by simp_all
  have "\<exists>mid. new_calls w w2 =
      [TbHelper (h_name (tb t)), TbRun (h_name (tb t)) name,
       TbHelper (h_name (tb t) @ ''/'' @ name),
       TracerStart (t_tracer t) (ctx t) (h_name (tb t) @ ''/'' @ name)
         [(''test.name'', h_name (tb t) @ ''/'' @ name), (''test.parent'', h_name (tb t))]
         (next_span w),
       TbCleanup (h_name (tb t) @ ''/'' @ name)]
      @ mid
      @ [SpanSetStatus (next_span w) (if tb_Failed (tb st) then codes_Error else codes_Ok)
           (if tb_Failed (tb st) then ''subtest failed''
            else if tb_Skipped (tb st) then ''subtest skipped'' else ''subtest passed''),
         SpanEnd (next_span w)]
      \<and> SpanEnd (next_span w) \<notin> set mid \<and> filter is_metric mid = []"
    using nc m by blast
  then show ?thesis
    using st
    by (simp add: Let_def body res T_Name_def tb_Name_def tb_Failed_def subtest_handle_def)
qed

text \<open>
  C10. The cleanup function that \<open>Run\<close> registers sets the status of the subtest's span
  and ends the span, and does nothing else. A call of \<open>Run\<close>, whatever the nested body
  is, adds no call on a metrics instrument, and neither does any other call on the wrapper
  in a test body. The cleanup function that \<open>New\<close> registers is where
  \<open>recordTestMetrics\<close> is called.
\<close>

theorem Run_records_no_metric:
  "new_calls w (run_cleanup (RunCleanup spn) t w) =
     [SpanSetStatus spn (fst (determineSubtestStatus (tb t)))
        (snd (determineSubtestStatus (tb t))), SpanEnd spn]
   \<and> filter is_metric (new_calls w (snd (snd (T_Run name (exec_body F body) (t, w))))) = []
   \<and> filter is_metric (new_calls w (snd (snd (exec_body F body (t, w))))) = []
   \<and> filter is_metric (new_calls w (run_cleanup (NewCleanup spn c) t w)) =
       metric_records w c (h_name (tb t)) (now w - startTime t) (snd (snd (determineStatus t)))"
proof -
  have 1: "new_calls w (run_cleanup (RunCleanup spn) t w) =
     [SpanSetStatus spn (fst (determineSubtestStatus (tb t)))
        (snd (determineSubtestStatus (tb t))), SpanEnd spn]"
    by (simp add: new_calls_def RunCleanup_calls)
  obtain r t2 w2 where r: "T_Run name (exec_body F body) (t, w) = (r, t2, w2)"
    by (cases "T_Run name (exec_body F body) (t, w)") auto
  have "ext w w2"
    using T_Run_inv [where f = "exec_body F body", OF _ r] exec_inv(2) by blast
  then have 2: "filter is_metric (new_calls w (snd (snd (T_Run name (exec_body F body) (t, w))))) = []"
    by (simp add: r ext_no_metric)
  obtain c3 t3 w3 where b: "exec_body F body (t, w) = (c3, t3, w3)"
    by (cases "exec_body F body (t, w)") auto
  from exec_inv(2) [OF b] have "ext w w3" by simp
  then have 3: "filter is_metric (new_calls w (snd (snd (exec_body F body (t, w))))) = []"
    by (simp add: b ext_no_metric)
  have 4: "filter is_metric (new_calls w (run_cleanup (NewCleanup spn c) t w)) =
       metric_records w c (h_name (tb t)) (now w - startTime t) (snd (snd (determineStatus t)))"
    by (simp add: new_calls_def NewCleanup_calls filter_metric_records)
  from 1 2 3 4 show ?thesis by simp
qed

subsection \<open>The properties at concrete tests\<close>

lemmas ex_defs =
  ex_config_def ex_session_def ex_handle_def ex_double_def ex_world_def ex_world1_def
  ex_T_def ex_sprintf_def ex_fatal_body_def ex_error_body_def ex_child_body_def

lemmas run_defs =
  method_defs run_test_def run_cleanups_def run_cleanup.simps New_def T_Run_def tt_Run_def
  Run_closure_def subtest_handle_def subtest_start_def recordTestMetrics_def
  determineStatus_def determineSubtestStatus_def hasFailed_def tb_Failed_def tb_Skipped_def
  tb_Name_def T_Name_def leave_def formatArgs_def formatf_def otel_Tracer_def emit_def
  new_calls_def metric_records_def consts_defs Let_def

lemma ex_New:
  "New (Some ex_session) ex_handle ex_world = (Inr (ex_T ex_handle), ex_world1 ex_handle)"
  "New (Some ex_session) ex_double ex_world = (Inr (ex_T ex_double), ex_world1 ex_double)"
  by (simp_all add: ex_defs run_defs)

text \<open>
  A test on a \<open>*testing.T\<close> that logs, calls \<open>Fatal\<close> and so never reaches its last
  statement: the finalisation still runs, once, in order.
\<close>

theorem finalization_once_in_order_witness:
  "New (Some ex_session) ex_handle ex_world = (Inr (ex_T ex_handle), ex_world1 ex_handle)
   \<and> list_all is_user (h_cleanups ex_handle)
   \<and> (\<exists>pre t2. fst (run_test ex_sprintf (Some ex_session) ex_handle
                       ex_fatal_body ex_world) = Inr t2
      \<and> new_calls ex_world (snd (run_test ex_sprintf (Some ex_session) ex_handle
                       ex_fatal_body ex_world)) = pre
          @ [SpanSetStatus (span (ex_T ex_handle)) (fst (determineStatus t2))
               (fst (snd (determineStatus t2))),
             SpanEnd (span (ex_T ex_handle))]
          @ metric_records (snd (run_test ex_sprintf (Some ex_session) ex_handle
                       ex_fatal_body ex_world))
              (ctx (ex_T ex_handle)) (h_name ex_handle)
              (now (snd (run_test ex_sprintf (Some ex_session) ex_handle
                       ex_fatal_body ex_world))
                 - startTime (ex_T ex_handle))
              (snd (snd (determineStatus t2)))
      \<and> SpanEnd (span (ex_T ex_handle)) \<notin> set pre \<and> filter is_metric pre = []
      \<and> length (filter (\<lambda>c. c = SpanEnd (span (ex_T ex_handle)))
            (new_calls ex_world (snd (run_test ex_sprintf (Some ex_session) ex_handle
                       ex_fatal_body ex_world)))) = 1
      \<and> filter is_metric (new_calls ex_world (snd (run_test ex_sprintf (Some ex_session)
                       ex_handle ex_fatal_body
                       ex_world))) =
          metric_records (snd (run_test ex_sprintf (Some ex_session) ex_handle
                       ex_fatal_body ex_world))
              (ctx (ex_T ex_handle)) (h_name ex_handle)
              (now (snd (run_test ex_sprintf (Some ex_session) ex_handle
                       ex_fatal_body ex_world))
                 - startTime (ex_T ex_handle))
              (snd (snd (determineStatus t2))))
   \<and> new_calls ex_world (snd (run_test ex_sprintf (Some ex_session) ex_handle
                       ex_fatal_body ex_world)) =
       [TbHelper ''TestX'',
        TracerStart (ProviderTracer ''spectra'') None ''TestX'' [(''test.name'', ''TestX'')] 0,
        TbCleanup ''TestX'',
        TbHelper ''TestX'', TbLog ''TestX'' [''hi''],
        SpanAddEvent 0 ''log'' [(''message'', ''hi''), (''level'', ''info'')],
        TbHelper ''TestX'',
        SpanAddEvent 0 ''log'' [(''message'', ''boom''), (''level'', ''fatal'')],
        SpanSetStatus 0 codes_Error ''test fatal'', TbFatal ''TestX'' [''boom''],
        SpanSetStatus 0 codes_Error ''test failed'', SpanEnd 0,
        HistogramRecord ''test.duration'' (Some 0) 7
          [(''test.name'', ''TestX''), (''test.status'', ''fail'')],
        CounterAdd ''test.count'' (Some 0) 1
          [(''test.name'', ''TestX''), (''test.status'', ''fail'')]]"
proof -
  have h1: "New (Some ex_session) ex_handle ex_world = (Inr (ex_T ex_handle), ex_world1 ex_handle)"
    by (rule ex_New)
  have h2: "list_all is_user (h_cleanups ex_handle)"
    by (simp add: ex_handle_def)
  have run: "new_calls ex_world (snd (run_test ex_sprintf (Some ex_session) ex_handle
                       ex_fatal_body ex_world)) =
       [TbHelper ''TestX'',
        TracerStart (ProviderTracer ''spectra'') None ''TestX'' [(''test.name'', ''TestX'')] 0,
        TbCleanup ''TestX'',
        TbHelper ''TestX'', TbLog ''TestX'' [''hi''],
        SpanAddEvent 0 ''log'' [(''message'', ''hi''), (''level'', ''info'')],
        TbHelper ''TestX'',
        SpanAddEvent 0 ''log'' [(''message'', ''boom''), (''level'', ''fatal'')],
        SpanSetStatus 0 codes_Error ''test fatal'', TbFatal ''TestX'' [''boom''],
        SpanSetStatus 0 codes_Error ''test failed'', SpanEnd 0,
        HistogramRecord ''test.duration'' (Some 0) 7
          [(''test.name'', ''TestX''), (''test.status'', ''fail'')],
        CounterAdd ''test.count'' (Some 0) 1
          [(''test.name'', ''TestX''), (''test.status'', ''fail'')]]"
    by (simp add: ex_defs run_defs)
  from finalization_once_in_order [OF h1 h2, of ex_sprintf
      ex_fatal_body] h1 h2 run
  show ?thesis
    by blast
qed

text \<open>
  A test on a double whose \<open>Errorf\<close> does not make \<open>Failed()\<close> true: the wrapper's own
  flag decides, and the test is finalised as failed.
\<close>

theorem Error_forces_failed_witness:
  "New (Some ex_session) ex_double ex_world = (Inr (ex_T ex_double), ex_world1 ex_double)
   \<and> list_all is_user (h_cleanups ex_double)
   \<and> invokes_Error ex_sprintf ex_error_body (ex_T ex_double, ex_world1 ex_double)
   \<and> (\<exists>pre t2. fst (run_test ex_sprintf (Some ex_session) ex_double ex_error_body ex_world)
                   = Inr t2
      \<and> failed t2
      \<and> determineStatus t2 = (codes_Error, ''test failed'', ''fail'')
      \<and> new_calls ex_world
           (snd (run_test ex_sprintf (Some ex_session) ex_double ex_error_body ex_world)) = pre
          @ [SpanSetStatus (span (ex_T ex_double)) codes_Error ''test failed'',
             SpanEnd (span (ex_T ex_double))]
          @ metric_records
              (snd (run_test ex_sprintf (Some ex_session) ex_double ex_error_body ex_world))
              (ctx (ex_T ex_double)) (h_name ex_double)
              (now (snd (run_test ex_sprintf (Some ex_session) ex_double ex_error_body ex_world))
                 - startTime (ex_T ex_double))
              ''fail'')
   \<and> (case fst (run_test ex_sprintf (Some ex_session) ex_double ex_error_body ex_world) of
         Inl e \<Rightarrow> False
       | Inr t2 \<Rightarrow> \<not> tb_Failed (tb t2) \<and> \<not> tb_Skipped (tb t2))
   \<and> new_calls ex_world
        (snd (run_test ex_sprintf (Some ex_session) ex_double ex_error_body ex_world)) =
       [TbHelper ''TestY'',
        TracerStart (ProviderTracer ''spectra'') None ''TestY'' [(''test.name'', ''TestY'')] 0,
        TbCleanup ''TestY'',
        TbHelper ''TestY'', TbErrorf ''TestY'' ''bad %s'' [''input''],
        SpanAddEvent 0 ''log'' [(''message'', ''bad %s''), (''level'', ''error'')],
        TbHelper ''TestY'', TbLog ''TestY'' [''goes on''],
        SpanAddEvent 0 ''log'' [(''message'', ''goes on''), (''level'', ''info'')],
        SpanSetStatus 0 codes_Error ''test failed'', SpanEnd 0,
        HistogramRecord ''test.duration'' (Some 0) 0
          [(''test.name'', ''TestY''), (''test.status'', ''fail'')],
        CounterAdd ''test.count'' (Some 0) 1
          [(''test.name'', ''TestY''), (''test.status'', ''fail'')]]"
proof -
  have h1: "New (Some ex_session) ex_double ex_world = (Inr (ex_T ex_double), ex_world1 ex_double)"
    by (rule ex_New)
  have h2: "list_all is_user (h_cleanups ex_double)"
    by (simp add: ex_double_def)
  have h3: "invokes_Error ex_sprintf ex_error_body (ex_T ex_double, ex_world1 ex_double)"
    by (simp add: ex_error_body_def)
  have flags: "case fst (run_test ex_sprintf (Some ex_session) ex_double ex_error_body ex_world) of
         Inl e \<Rightarrow> False
       | Inr t2 \<Rightarrow> \<not> tb_Failed (tb t2) \<and> \<not> tb_Skipped (tb t2)"
    by (simp add: ex_defs run_defs)
  have run: "new_calls ex_world
        (snd (run_test ex_sprintf (Some ex_session) ex_double ex_error_body ex_world)) =
       [TbHelper ''TestY'',
        TracerStart (ProviderTracer ''spectra'') None ''TestY'' [(''test.name'', ''TestY'')] 0,
        TbCleanup ''TestY'',
        TbHelper ''TestY'', TbErrorf ''TestY'' ''bad %s'' [''input''],
        SpanAddEvent 0 ''log'' [(''message'', ''bad %s''), (''level'', ''error'')],
        TbHelper ''TestY'', TbLog ''TestY'' [''goes on''],
        SpanAddEvent 0 ''log'' [(''message'', ''goes on''), (''level'', ''info'')],
        SpanSetStatus 0 codes_Error ''test failed'', SpanEnd 0,
        HistogramRecord ''test.duration'' (Some 0) 0
          [(''test.name'', ''TestY''), (''test.status'', ''fail'')],
        CounterAdd ''test.count'' (Some 0) 1
          [(''test.name'', ''TestY''), (''test.status'', ''fail'')]]"
    by (simp add: ex_defs run_defs)
  from Error_forces_failed [OF h1 h2 h3] h1 h2 h3 flags run
  show ?thesis
    by blast
qed

text \<open>
  A subtest \<open>child\<close> of \<open>TestX\<close> that reports an error and registers a teardown: the
  span \<open>TestX/child\<close> under the span of \<open>TestX\<close>, the teardown's span ended before the
  subtest's, the status "subtest failed", and \<open>Run\<close> returning \<open>false\<close>.
\<close>

theorem Run_child_span_witness:
  "h_kind (tb (ex_T ex_handle)) = TestingT
   \<and> (let p = T_Name (ex_T ex_handle);
           child = tb_Name (subtest_handle (tb (ex_T ex_handle)) ''child'');
           n = next_span (ex_world1 ex_handle);
           st = fst (snd (exec_body ex_sprintf ex_child_body
                  (subtest_start (ex_T ex_handle) ''child'' (ex_world1 ex_handle))));
           r = T_Run ''child'' (exec_body ex_sprintf ex_child_body)
                 (ex_T ex_handle, ex_world1 ex_handle)
       in child = p @ ''/'' @ ''child''
          \<and> tb_Name (tb st) = child \<and> span st = n \<and> ctx st = Some n
          \<and> fst r = Some (\<not> tb_Failed (tb st))
          \<and> (\<exists>mid. new_calls (ex_world1 ex_handle) (snd (snd r)) =
                [TbHelper p, TbRun p ''child'', TbHelper child,
                 TracerStart (t_tracer (ex_T ex_handle)) (ctx (ex_T ex_handle)) child
                   [(''test.name'', child), (''test.parent'', p)] n,
                 TbCleanup child]
                @ mid
                @ [SpanSetStatus n (if tb_Failed (tb st) then codes_Error else codes_Ok)
                     (if tb_Failed (tb st) then ''subtest failed''
                      else if tb_Skipped (tb st) then ''subtest skipped''
                      else ''subtest passed''),
                   SpanEnd n]
              \<and> SpanEnd n \<notin> set mid \<and> filter is_metric mid = []))
   \<and> fst (T_Run ''child'' (exec_body ex_sprintf ex_child_body)
             (ex_T ex_handle, ex_world1 ex_handle)) = Some False
   \<and> new_calls (ex_world1 ex_handle)
        (snd (snd (T_Run ''child'' (exec_body ex_sprintf ex_child_body)
                     (ex_T ex_handle, ex_world1 ex_handle)))) =
       [TbHelper ''TestX'', TbRun ''TestX'' ''child'', TbHelper ''TestX/child'',
        TracerStart (ProviderTracer ''spectra'') (Some 0) ''TestX/child''
          [(''test.name'', ''TestX/child''), (''test.parent'', ''TestX'')] 1,
        TbCleanup ''TestX/child'',
        TbHelper ''TestX/child'', TbError ''TestX/child'' [''bad''],
        SpanAddEvent 1 ''log'' [(''message'', ''bad''), (''level'', ''error'')],
        TbHelper ''TestX/child'', TbCleanup ''TestX/child'',
        TracerStart (ProviderTracer ''spectra'') (Some 1) ''TestX/child/teardown''
          [(''test.phase'', ''teardown'')] 2,
        SpanEnd 2,
        SpanSetStatus 1 codes_Error ''subtest failed'', SpanEnd 1]"
proof -
  have h: "h_kind (tb (ex_T ex_handle)) = TestingT"
    by (simp add: ex_defs)
  have r: "fst (T_Run ''child'' (exec_body ex_sprintf ex_child_body)
             (ex_T ex_handle, ex_world1 ex_handle)) = Some False"
    by (simp add: ex_defs run_defs)
  have run: "new_calls (ex_world1 ex_handle)
        (snd (snd (T_Run ''child'' (exec_body ex_sprintf ex_child_body)
                     (ex_T ex_handle, ex_world1 ex_handle)))) =
       [TbHelper ''TestX'', TbRun ''TestX'' ''child'', TbHelper ''TestX/child'',
        TracerStart (ProviderTracer ''spectra'') (Some 0) ''TestX/child''
          [(''test.name'', ''TestX/child''), (''test.parent'', ''TestX'')] 1,
        TbCleanup ''TestX/child'',
        TbHelper ''TestX/child'', TbError ''TestX/child'' [''bad''],
        SpanAddEvent 1 ''log'' [(''message'', ''bad''), (''level'', ''error'')],
        TbHelper ''TestX/child'', TbCleanup ''TestX/child'',
        TracerStart (ProviderTracer ''spectra'') (Some 1) ''TestX/child/teardown''
          [(''test.phase'', ''teardown'')] 2,
        SpanEnd 2,
        SpanSetStatus 1 codes_Error ''subtest failed'', SpanEnd 1]"
    by (simp add: ex_defs run_defs)
  from Run_child_span [OF h, of "''child''" "ex_world1 ex_handle" ex_sprintf ex_child_body]
    h r run
  show ?thesis
    by blast
qed

end
